theory Spec2Isabelle
  imports Main "HOL-Library.AList" "HOL-Library.Sublist" "HOL-Library.Multiset"
    "HOL-Library.Product_Lexorder"
begin

section \<open>Data model of the session working memory\<close>

text \<open>
  The embedding follows the class \<^verbatim>\<open>MemoryManager\<close> in its version with the todo
  list (the second part of src/context/context-aware-agent.ts), the types of
  src/context/types.ts, and \<^verbatim>\<open>detectUserIntent\<close> of the extractor module.

  Conventions of the model:
  \<^item> the clock is read in milliseconds, an \<open>int\<close>; every method that reads it takes
    the reading as its first argument \<open>now\<close>, one reading per call, and a date made
    by \<^verbatim>\<open>new Date()\<close> is that reading;
  \<^item> an optional property is an \<open>option\<close>; \<open>None\<close> is the absent (undefined) property;
  \<^item> a JavaScript string is a \<open>string\<close> holding its UTF-8 bytes, so the empty string
    is \<open>[]\<close> and a non-ASCII character is a run of bytes written with \<open>CHR\<close>;
  \<^item> console logging is left out: it does not touch the state.
\<close>

text \<open>
  The dates of a todo may come from the caller of \<^verbatim>\<open>updateTodos\<close>. A \<^verbatim>\<open>Date\<close>
  object is either a time in milliseconds or an Invalid Date (as
  \<^verbatim>\<open>new Date("2025-13-01")\<close> is), whose \<^verbatim>\<open>getTime()\<close> is NaN. A number that may be
  NaN is an \<open>int option\<close>, \<open>None\<close> being NaN.
\<close>

datatype date = Date int | InvalidDate

fun getTime :: "date \<Rightarrow> int option" where
  "getTime (Date ms) = Some ms"
| "getTime InvalidDate = None"

datatype todoStatus = Pending | In_progress | Completed

datatype todoPriority = High | Medium | Low

record todo =
  content :: string
  activeForm :: string
  status :: todoStatus
  priority :: "todoPriority option"
  createdAt :: "date option"
  completedAt :: "date option"

datatype ideaStage = Stage_idea | Stage_mvp | Stage_launched

text \<open>
  \<^verbatim>\<open>IdeaContext\<close> is stored through a cast from a merge of partial objects, so at run
  time every property, \<^verbatim>\<open>description\<close> included, may be missing: one record serves
  for \<^verbatim>\<open>IdeaContext\<close> and \<^verbatim>\<open>Partial<IdeaContext>\<close>.
\<close>

record ideaContext =
  description :: "string option"
  category :: "string option"
  targetMarket :: "string option"
  keyFeatures :: "string list option"
  stage :: "ideaStage option"

text \<open>
  The cached \<^verbatim>\<open>data\<close> has type \<^verbatim>\<open>any\<close>. The values of JavaScript that the model
  distinguishes; numbers are taken at integer values, with \<open>NaN\<close> apart.
\<close>

datatype jsvalue =
    Undefined
  | Null
  | Boolean bool
  | Number int
  | NaN
  | String string
  | Object "(string \<times> jsvalue) list"

text \<open>\<^verbatim>\<open>ToBoolean\<close>, which \<^verbatim>\<open>!!v\<close> and \<^verbatim>\<open>if (v)\<close> apply.\<close>

fun truthy :: "jsvalue \<Rightarrow> bool" where
  "truthy Undefined = False"
| "truthy Null = False"
| "truthy (Boolean b) = b"
| "truthy (Number n) = (n \<noteq> 0)"
| "truthy NaN = False"
| "truthy (String s) = (s \<noteq> [])"
| "truthy (Object props) = True"

record analysisEntry =
  data :: jsvalue
  timestamp :: int

text \<open>The keys of \<^verbatim>\<open>AnalysisCache\<close>.\<close>

datatype analysisKind = Competitor | Market | Customer | VcReport

datatype focus = Focus_competitor | Focus_market | Focus_customer | Focus_strategy | Focus_general

text \<open>
  \<^verbatim>\<open>analyses\<close> is an object used as a dictionary. \<^verbatim>\<open>Object.keys\<close> lists its keys in
  the order they were first assigned, so the model is an association list:
  \<open>map_of\<close> reads a key, \<open>AList.update\<close> assigns one (in place when the key exists,
  at the end otherwise), \<open>map fst\<close> is \<^verbatim>\<open>Object.keys\<close>.
\<close>

record workingMemory =
  idea :: "ideaContext option"
  analyses :: "(analysisKind \<times> analysisEntry) list"
  currentFocus :: "focus option"
  recommendations :: "string list"
  userConcerns :: "string list"
  todos :: "todo list"

record conversationContext =
  sessionId :: string
  ctxCreatedAt :: int
  lastUpdatedAt :: int
  tokenCount :: nat
  workingMemory :: workingMemory

section \<open>MemoryManager\<close>

text \<open>
  The constructor. \<^verbatim>\<open>sessionId || this.generateSessionId()\<close> draws a random suffix;
  the model takes the resulting identifier as \<open>sid\<close>.
\<close>

definition newMemoryManager :: "int \<Rightarrow> string \<Rightarrow> conversationContext" where
  "newMemoryManager now sid =
     \<lparr> sessionId = sid, ctxCreatedAt = now, lastUpdatedAt = now, tokenCount = 0,
       workingMemory = \<lparr> idea = None, analyses = [], currentFocus = None,
                         recommendations = [], userConcerns = [], todos = [] \<rparr> \<rparr>"

definition touch :: "int \<Rightarrow> conversationContext \<Rightarrow> conversationContext" where
  "touch now c = c\<lparr>lastUpdatedAt := now\<rparr>"

subsection \<open>Recommendations and user concerns\<close>

text \<open>\<^verbatim>\<open>Array.prototype.includes\<close> on strings is membership; \<^verbatim>\<open>push\<close> appends.\<close>

definition addRecommendation :: "int \<Rightarrow> string \<Rightarrow> conversationContext \<Rightarrow> conversationContext" where
  "addRecommendation now recommendation c =
     (if recommendation \<notin> set (recommendations (workingMemory c))
      then touch now (c\<lparr>workingMemory :=
             (workingMemory c)\<lparr>recommendations :=
                recommendations (workingMemory c) @ [recommendation]\<rparr>\<rparr>)
      else c)"

definition getRecommendations :: "conversationContext \<Rightarrow> string list" where
  "getRecommendations c = recommendations (workingMemory c)"

definition clearRecommendations :: "int \<Rightarrow> conversationContext \<Rightarrow> conversationContext" where
  "clearRecommendations now c =
     touch now (c\<lparr>workingMemory := (workingMemory c)\<lparr>recommendations := []\<rparr>\<rparr>)"

definition addUserConcern :: "int \<Rightarrow> string \<Rightarrow> conversationContext \<Rightarrow> conversationContext" where
  "addUserConcern now concern c =
     (if concern \<notin> set (userConcerns (workingMemory c))
      then touch now (c\<lparr>workingMemory :=
             (workingMemory c)\<lparr>userConcerns :=
                userConcerns (workingMemory c) @ [concern]\<rparr>\<rparr>)
      else c)"

definition getUserConcerns :: "conversationContext \<Rightarrow> string list" where
  "getUserConcerns c = userConcerns (workingMemory c)"

subsection \<open>Idea\<close>

text \<open>
  The object spread \<^verbatim>\<open>{...old, ...idea}\<close>: a property the partial object sets
  overwrites the old one, every other property of the old object stays; spreading an
  undefined old object contributes nothing. A property of the partial object is either
  set to a value or not there; a property written out with the value undefined, which
  the spread would copy over the old value, is not represented.
\<close>

definition spread :: "ideaContext option \<Rightarrow> ideaContext \<Rightarrow> ideaContext" where
  "spread old new =
     (let basis = (case old of
                     None \<Rightarrow> \<lparr> description = None, category = None, targetMarket = None,
                               keyFeatures = None, stage = None \<rparr>
                   | Some i \<Rightarrow> i)
      in \<lparr> description = (case description new of Some v \<Rightarrow> Some v | None \<Rightarrow> description basis),
           category = (case category new of Some v \<Rightarrow> Some v | None \<Rightarrow> category basis),
           targetMarket = (case targetMarket new of Some v \<Rightarrow> Some v | None \<Rightarrow> targetMarket basis),
           keyFeatures = (case keyFeatures new of Some v \<Rightarrow> Some v | None \<Rightarrow> keyFeatures basis),
           stage = (case stage new of Some v \<Rightarrow> Some v | None \<Rightarrow> stage basis) \<rparr>)"

definition updateIdea :: "int \<Rightarrow> ideaContext \<Rightarrow> conversationContext \<Rightarrow> conversationContext" where
  "updateIdea now partial c =
     touch now (c\<lparr>workingMemory :=
        (workingMemory c)\<lparr>idea := Some (spread (idea (workingMemory c)) partial)\<rparr>\<rparr>)"

definition getIdea :: "conversationContext \<Rightarrow> ideaContext option" where
  "getIdea c = idea (workingMemory c)"

text \<open>\<^verbatim>\<open>!!idea?.description\<close>: a missing idea, a missing description and the empty
  description are all falsy.\<close>

definition hasIdea :: "conversationContext \<Rightarrow> bool" where
  "hasIdea c =
     (case idea (workingMemory c) of
        None \<Rightarrow> False
      | Some i \<Rightarrow> (case description i of None \<Rightarrow> False | Some d \<Rightarrow> d \<noteq> []))"

subsection \<open>Analysis cache\<close>

definition cacheAnalysis ::
  "int \<Rightarrow> analysisKind \<Rightarrow> jsvalue \<Rightarrow> conversationContext \<Rightarrow> conversationContext" where
  "cacheAnalysis now type d c =
     touch now (c\<lparr>workingMemory :=
        (workingMemory c)\<lparr>analyses :=
           AList.update type \<lparr> data = d, timestamp = now \<rparr> (analyses (workingMemory c))\<rparr>\<rparr>)"

definition maxAge :: int where
  "maxAge = 60 * 60 * 1000"

text \<open>
  \<^verbatim>\<open>getCachedAnalysis\<close> returns its result together with the state it leaves, which
  is the state it was given on every path: the method assigns nothing.
\<close>

definition getCachedAnalysis ::
  "int \<Rightarrow> analysisKind \<Rightarrow> conversationContext \<Rightarrow> jsvalue \<times> conversationContext" where
  "getCachedAnalysis now type c =
     (case map_of (analyses (workingMemory c)) type of
        None \<Rightarrow> (Undefined, c)
      | Some cached \<Rightarrow>
          (let age = now - timestamp cached
           in if age > maxAge then (Undefined, c) else (data cached, c)))"

definition hasAnalysis :: "int \<Rightarrow> analysisKind \<Rightarrow> conversationContext \<Rightarrow> bool" where
  "hasAnalysis now type c = truthy (fst (getCachedAnalysis now type c))"

definition getCompletedAnalyses :: "int \<Rightarrow> conversationContext \<Rightarrow> analysisKind list" where
  "getCompletedAnalyses now c =
     filter (\<lambda>key. hasAnalysis now key c) (map fst (analyses (workingMemory c)))"

subsection \<open>Focus\<close>

definition setFocus :: "int \<Rightarrow> focus option \<Rightarrow> conversationContext \<Rightarrow> conversationContext" where
  "setFocus now f c =
     touch now (c\<lparr>workingMemory := (workingMemory c)\<lparr>currentFocus := f\<rparr>\<rparr>)"

definition getFocus :: "conversationContext \<Rightarrow> focus option" where
  "getFocus c = currentFocus (workingMemory c)"

subsection \<open>Todos\<close>

text \<open>The default parameter \<^verbatim>\<open>priority = "medium"\<close> applies when the argument is
  undefined.\<close>

definition addTodo ::
  "int \<Rightarrow> string \<Rightarrow> string \<Rightarrow> todoPriority option \<Rightarrow> conversationContext \<Rightarrow> conversationContext" where
  "addTodo now cont active prio c =
     touch now (c\<lparr>workingMemory :=
        (workingMemory c)\<lparr>todos := todos (workingMemory c) @
           [\<lparr> content = cont, activeForm = active, status = Pending,
              priority = Some (case prio of None \<Rightarrow> Medium | Some p \<Rightarrow> p),
              createdAt = Some (Date now), completedAt = None \<rparr>]\<rparr>\<rparr>)"

text \<open>
  \<^verbatim>\<open>a || b\<close> on optional dates: a \<^verbatim>\<open>Date\<close> object is truthy, an Invalid Date
  too, so the first date that is present is taken.
\<close>

definition orElse :: "'a option \<Rightarrow> 'a option \<Rightarrow> 'a option" where
  "orElse a b = (case a of Some v \<Rightarrow> Some v | None \<Rightarrow> b)"

definition updateTodos :: "int \<Rightarrow> todo list \<Rightarrow> conversationContext \<Rightarrow> conversationContext" where
  "updateTodos now newTodos c =
     (let updatedTodos =
        map (\<lambda>newTodo.
               let existingTodo = find (\<lambda>t. content t = content newTodo) (todos (workingMemory c))
               in newTodo\<lparr>
                    createdAt :=
                      orElse (case existingTodo of None \<Rightarrow> None | Some e \<Rightarrow> createdAt e)
                        (orElse (createdAt newTodo) (Some (Date now))),
                    completedAt :=
                      (if status newTodo = Completed
                       then orElse (completedAt newTodo) (Some (Date now))
                       else None)\<rparr>)
            newTodos
      in touch now (c\<lparr>workingMemory := (workingMemory c)\<lparr>todos := updatedTodos\<rparr>\<rparr>))"

text \<open>
  \<^verbatim>\<open>todos[index]\<close> is an object, hence truthy, exactly when \<open>index\<close> is a position
  of the array; for every other number (taken here at integer values) it is undefined
  and the method does nothing.
\<close>

definition updateTodoStatus ::
  "int \<Rightarrow> int \<Rightarrow> todoStatus \<Rightarrow> conversationContext \<Rightarrow> conversationContext" where
  "updateTodoStatus now index st c =
     (let ts = todos (workingMemory c)
      in if 0 \<le> index \<and> index < int (length ts)
         then (let t = ts ! nat index;
                   t1 = t\<lparr>status := st\<rparr>;
                   t2 = (if st = Completed then t1\<lparr>completedAt := Some (Date now)\<rparr> else t1)
               in touch now (c\<lparr>workingMemory :=
                    (workingMemory c)\<lparr>todos := ts[nat index := t2]\<rparr>\<rparr>))
         else c)"

fun STATUS_PRIORITY :: "todoStatus \<Rightarrow> int" where
  "STATUS_PRIORITY In_progress = 0"
| "STATUS_PRIORITY Pending = 1"
| "STATUS_PRIORITY Completed = 2"

fun PRIORITY_MAP :: "todoPriority \<Rightarrow> int" where
  "PRIORITY_MAP High = 0"
| "PRIORITY_MAP Medium = 1"
| "PRIORITY_MAP Low = 2"

text \<open>
  The comparator passed to \<^verbatim>\<open>sort\<close>. Its result is a number: the two rank
  differences are integers, the difference of two \<^verbatim>\<open>getTime()\<close> values is NaN as
  soon as one of them is.
\<close>

definition compareTodos :: "todo \<Rightarrow> todo \<Rightarrow> int option" where
  "compareTodos a b =
     (let statusDiff = STATUS_PRIORITY (status a) - STATUS_PRIORITY (status b)
      in if statusDiff \<noteq> 0 then Some statusDiff
         else
           (let priorityA = (case priority a of None \<Rightarrow> Medium | Some p \<Rightarrow> p);
                priorityB = (case priority b of None \<Rightarrow> Medium | Some p \<Rightarrow> p);
                priorityDiff = PRIORITY_MAP priorityA - PRIORITY_MAP priorityB
            in if priorityDiff \<noteq> 0 then Some priorityDiff
               else (case (createdAt a, createdAt b) of
                       (Some da, Some db) \<Rightarrow>
                         (case (getTime da, getTime db) of
                            (Some ta, Some tb) \<Rightarrow> Some (ta - tb)
                          | _ \<Rightarrow> None)
                     | _ \<Rightarrow> Some 0)))"

text \<open>
  \<^verbatim>\<open>Array.prototype.sort\<close> is the runtime's stable sort. It calls the comparator
  through the standard's \<^verbatim>\<open>SortCompare\<close>, which reads a NaN result as +0, and uses
  only the sign of the result. It is modelled by the stable insertion sort: an element
  goes in front of the first element of the sorted rest that it does not compare
  greater than.

  Where the comparator is a total preorder on the elements, every stable sort returns
  the same list, so the model is the runtime's result. Where it is not, the standard
  leaves the order to the implementation and the model need not agree with a given
  runtime. It does on a list in which every element compares as equal to its
  neighbour: insertion sorts and run-detecting merge sorts, V8's among them, return
  such a list as it is.
\<close>

definition sortCompare :: "('a \<Rightarrow> 'a \<Rightarrow> int option) \<Rightarrow> 'a \<Rightarrow> 'a \<Rightarrow> int" where
  "sortCompare comparefn x y = (case comparefn x y of None \<Rightarrow> 0 | Some v \<Rightarrow> v)"

fun insertBy :: "('a \<Rightarrow> 'a \<Rightarrow> int option) \<Rightarrow> 'a \<Rightarrow> 'a list \<Rightarrow> 'a list" where
  "insertBy cmp x [] = [x]"
| "insertBy cmp x (y # ys) =
     (if sortCompare cmp x y \<le> 0 then x # y # ys else y # insertBy cmp x ys)"

definition arraySort :: "('a \<Rightarrow> 'a \<Rightarrow> int option) \<Rightarrow> 'a list \<Rightarrow> 'a list" where
  "arraySort cmp xs = foldr (insertBy cmp) xs []"

definition sortTodos :: "conversationContext \<Rightarrow> todo list" where
  "sortTodos c = arraySort compareTodos (todos (workingMemory c))"

definition getTodos :: "conversationContext \<Rightarrow> todo list" where
  "getTodos c = sortTodos c"

text \<open>\<^verbatim>\<open>getProgress\<close> without its \<^verbatim>\<open>percentage\<close>, a floating-point quotient.\<close>

record progress =
  total :: nat
  completed :: nat
  inProgress :: nat
  pending :: nat

definition getProgress :: "conversationContext \<Rightarrow> progress" where
  "getProgress c =
     (let ts = todos (workingMemory c)
      in \<lparr> total = length ts,
           completed = length (filter (\<lambda>t. status t = Completed) ts),
           inProgress = length (filter (\<lambda>t. status t = In_progress) ts),
           pending = length (filter (\<lambda>t. status t = Pending) ts) \<rparr>)"

definition getCurrentTodo :: "conversationContext \<Rightarrow> todo option" where
  "getCurrentTodo c = find (\<lambda>t. status t = In_progress) (todos (workingMemory c))"

subsection \<open>Context summary\<close>

text \<open>\<^verbatim>\<open>Array.prototype.join\<close> and the decimal form of a count in a template string.\<close>

fun join :: "string \<Rightarrow> string list \<Rightarrow> string" where
  "join sep [] = []"
| "join sep [x] = x"
| "join sep (x # y # ys) = x @ sep @ join sep (y # ys)"

definition digit :: "nat \<Rightarrow> char" where
  "digit d = ''0123456789'' ! d"

function showNat :: "nat \<Rightarrow> string" where
  "showNat n = (if n < 10 then [digit n] else showNat (n div 10) @ [digit (n mod 10)])"
  by pat_completeness auto
termination
  by (relation "measure id") auto

fun keyName :: "analysisKind \<Rightarrow> string" where
  "keyName Competitor = ''competitor''"
| "keyName Market = ''market''"
| "keyName Customer = ''customer''"
| "keyName VcReport = ''vcReport''"

fun focusName :: "focus \<Rightarrow> string" where
  "focusName Focus_competitor = ''competitor''"
| "focusName Focus_market = ''market''"
| "focusName Focus_customer = ''customer''"
| "focusName Focus_strategy = ''strategy''"
| "focusName Focus_general = ''general''"

definition nl :: string where
  "nl = [CHR 0x0A]"

definition statusIcon :: "todo \<Rightarrow> string" where
  "statusIcon t =
     (if status t = Completed then [CHR 0xE2, CHR 0x9C, CHR 0x93]
      else if status t = In_progress then [CHR 0xE2, CHR 0x9A, CHR 0xA1]
      else [CHR 0xE2, CHR 0x8F, CHR 0xB3])"

definition priorityTag :: "todo \<Rightarrow> string" where
  "priorityTag t =
     (if priority t = Some High then '' [HIGH]''
      else if priority t = Some Low then '' [LOW]''
      else [])"

text \<open>The lines pushed by \<^verbatim>\<open>todos.forEach((todo, index) => ...)\<close>, from position
  \<open>index\<close> on.\<close>

fun todoLines :: "nat \<Rightarrow> todo list \<Rightarrow> string list" where
  "todoLines index [] = []"
| "todoLines index (t # ts) =
     (''  '' @ showNat (index + 1) @ ''. '' @ statusIcon t @ '' '' @ content t @ priorityTag t)
       # todoLines (index + 1) ts"

text \<open>The array \<^verbatim>\<open>parts\<close> at the end of \<^verbatim>\<open>buildContextSummary\<close>, section by
  section in the order of the pushes.\<close>

definition ideaParts :: "conversationContext \<Rightarrow> string list" where
  "ideaParts c =
     (if hasIdea c
      then (case getIdea c of
              None \<Rightarrow> []
            | Some i \<Rightarrow>
                [''STARTUP IDEA: '' @ (case description i of None \<Rightarrow> [] | Some d \<Rightarrow> d)]
                @ (case targetMarket i of
                     None \<Rightarrow> []
                   | Some m \<Rightarrow> if m \<noteq> [] then [''Target Market: '' @ m] else [])
                @ (case category i of
                     None \<Rightarrow> []
                   | Some g \<Rightarrow> if g \<noteq> [] then [''Category: '' @ g] else []))
      else [])"

definition analysesParts :: "int \<Rightarrow> conversationContext \<Rightarrow> string list" where
  "analysesParts now c =
     (let completedKinds = getCompletedAnalyses now c
      in if length completedKinds > 0
         then [nl @ ''COMPLETED ANALYSES: '' @ join '', '' (map keyName completedKinds)]
         else [])"

definition focusParts :: "conversationContext \<Rightarrow> string list" where
  "focusParts c =
     (case getFocus c of
        None \<Rightarrow> []
      | Some f \<Rightarrow> [nl @ ''CURRENT FOCUS: '' @ focusName f])"

definition concernParts :: "conversationContext \<Rightarrow> string list" where
  "concernParts c =
     (let concerns = getUserConcerns c
      in if length concerns > 0
         then [nl @ ''USER CONCERNS:'' @ nl @ join nl (map (\<lambda>x. ''- '' @ x) concerns)]
         else [])"

definition recommendationParts :: "conversationContext \<Rightarrow> string list" where
  "recommendationParts c =
     (let recs = getRecommendations c
      in if length recs > 0
         then [nl @ ''RECOMMENDATIONS:'' @ nl @ join nl (map (\<lambda>r. ''- '' @ r) recs)]
         else [])"

definition todoParts :: "conversationContext \<Rightarrow> string list" where
  "todoParts c =
     (let ts = getTodos c
      in if length ts > 0
         then (let p = getProgress c
               in [nl @ ''TODOS ('' @ showNat (completed p) @ ''/'' @ showNat (total p)
                      @ '' completed):'']
                  @ todoLines 0 ts
                  @ (case getCurrentTodo c of
                       None \<Rightarrow> []
                     | Some currentTodo \<Rightarrow> [nl @ ''CURRENT TASK: '' @ activeForm currentTodo]))
         else [])"

definition buildContextSummary :: "int \<Rightarrow> conversationContext \<Rightarrow> string" where
  "buildContextSummary now c =
     (let parts = ideaParts c @ analysesParts now c @ focusParts c @ concernParts c
                  @ recommendationParts c @ todoParts c
      in if length parts > 0
         then nl @ ''--- CONTEXT ---'' @ nl @ join nl parts @ nl @ ''--- END CONTEXT ---'' @ nl
         else [])"

section \<open>Extractor\<close>

text \<open>
  \<^verbatim>\<open>String.prototype.includes\<close>: the keyword occurs as a contiguous run.
  \<^verbatim>\<open>String.prototype.toLowerCase\<close> is the runtime's Unicode case mapping; the model
  takes it as the parameter \<open>toLowerCase\<close>.
\<close>

fun includesStr :: "string \<Rightarrow> string \<Rightarrow> bool" where
  "includesStr [] k = (k = [])"
| "includesStr (x # xs) k = (prefix k (x # xs) \<or> includesStr xs k)"

datatype intent = Ask_competitor | Ask_market | Ask_customer | Ask_report | General

definition detectUserIntent :: "(string \<Rightarrow> string) \<Rightarrow> string \<Rightarrow> intent" where
  "detectUserIntent toLowerCase message =
     (let lowerMessage = toLowerCase message
      in if includesStr lowerMessage [CHR 0xE7, CHR 0xAB, CHR 0x9E, CHR 0xE5, CHR 0xAF, CHR 0xB9]
          \<or> includesStr lowerMessage [CHR 0xE7, CHR 0xAB, CHR 0x9E, CHR 0xE4, CHR 0xBA, CHR 0x89,
                                    CHR 0xE5, CHR 0xAF, CHR 0xB9, CHR 0xE6, CHR 0x89, CHR 0x8B]
          \<or> includesStr lowerMessage ''competitor''
         then Ask_competitor
         else if includesStr lowerMessage [CHR 0xE5, CHR 0xB8, CHR 0x82, CHR 0xE5, CHR 0x9C, CHR 0xBA]
          \<or> includesStr lowerMessage ''market size''
          \<or> includesStr lowerMessage ''tam''
          \<or> includesStr lowerMessage [CHR 0xE6, CHR 0x9C, CHR 0xBA, CHR 0xE4, CHR 0xBC, CHR 0x9A]
         then Ask_market
         else if includesStr lowerMessage [CHR 0xE5, CHR 0xAE, CHR 0xA2, CHR 0xE6, CHR 0x88, CHR 0xB7]
          \<or> includesStr lowerMessage [CHR 0xE7, CHR 0x94, CHR 0xA8, CHR 0xE6, CHR 0x88, CHR 0xB7,
                                    CHR 0xE7, CHR 0x94, CHR 0xBB, CHR 0xE5, CHR 0x83, CHR 0x8F]
          \<or> includesStr lowerMessage ''customer''
          \<or> includesStr lowerMessage ''target audience''
         then Ask_customer
         else if includesStr lowerMessage [CHR 0xE5, CHR 0xAE, CHR 0x8C, CHR 0xE6, CHR 0x95, CHR 0xB4,
                                        CHR 0xE6, CHR 0x8A, CHR 0xA5, CHR 0xE5, CHR 0x91, CHR 0x8A]
          \<or> includesStr lowerMessage [CHR 0xE8, CHR 0xAF, CHR 0x84, CHR 0xE4, CHR 0xBC, CHR 0xB0,
                                    CHR 0xE6, CHR 0x8A, CHR 0xA5, CHR 0xE5, CHR 0x91, CHR 0x8A]
          \<or> includesStr lowerMessage ''vc''
          \<or> includesStr lowerMessage ''full report''
          \<or> includesStr lowerMessage ''comprehensive''
         then Ask_report
         else General)"

section \<open>The ordering of todos in the words of the specification\<close>

text \<open>
  Status rank (in progress, pending, completed), priority rank (high, medium, low; no
  priority counts as medium), and the order they induce. \<open>threeTierLe a b\<close> says
  that \<open>a\<close> may stand before \<open>b\<close>: lower status rank first, then lower priority
  rank, then earlier \<open>createdAt\<close>, where a pair in which a timestamp is missing or
  is no time is tied. \<open>tiedKeys\<close> holds of two todos whose three keys are the same,
  and \<open>stamped\<close> of a todo whose \<open>createdAt\<close> is a time.
\<close>

definition statusRank :: "todo \<Rightarrow> int" where
  "statusRank t = (case status t of In_progress \<Rightarrow> 0 | Pending \<Rightarrow> 1 | Completed \<Rightarrow> 2)"

definition priorityRank :: "todo \<Rightarrow> int" where
  "priorityRank t =
     (case priority t of None \<Rightarrow> 1 | Some High \<Rightarrow> 0 | Some Medium \<Rightarrow> 1 | Some Low \<Rightarrow> 2)"

definition threeTierLe :: "todo \<Rightarrow> todo \<Rightarrow> bool" where
  "threeTierLe a b \<longleftrightarrow>
     statusRank a < statusRank b
     \<or> (statusRank a = statusRank b
        \<and> (priorityRank a < priorityRank b
           \<or> (priorityRank a = priorityRank b
              \<and> (case (createdAt a, createdAt b) of
                    (Some (Date ta), Some (Date tb)) \<Rightarrow> ta \<le> tb
                  | _ \<Rightarrow> True))))"

definition tiedKeys :: "todo \<Rightarrow> todo \<Rightarrow> bool" where
  "tiedKeys a b \<longleftrightarrow>
     statusRank a = statusRank b \<and> priorityRank a = priorityRank b \<and> createdAt a = createdAt b"

definition stamped :: "todo \<Rightarrow> bool" where
  "stamped t = (case createdAt t of Some (Date ms) \<Rightarrow> True | _ \<Rightarrow> False)"

text \<open>The three keys of a todo as one value, ordered lexicographically; a timestamp
  that is missing or is no time is read as 0.\<close>

definition sortKey :: "todo \<Rightarrow> int \<times> int \<times> int" where
  "sortKey t =
     (statusRank t, priorityRank t, (case createdAt t of Some (Date ms) \<Rightarrow> ms | _ \<Rightarrow> 0))"

section \<open>Intent detection in the words of the specification\<close>

text \<open>
  The keyword groups of \<^verbatim>\<open>detectUserIntent\<close> as an ordered table, and detection
  as the first group of the table one of whose keywords occurs in the lower-cased
  message, \<open>general\<close> when there is none.
\<close>

definition keywordGroups :: "(intent \<times> string list) list" where
  "keywordGroups =
     [(Ask_competitor,
         [[CHR 0xE7, CHR 0xAB, CHR 0x9E, CHR 0xE5, CHR 0xAF, CHR 0xB9],
          [CHR 0xE7, CHR 0xAB, CHR 0x9E, CHR 0xE4, CHR 0xBA, CHR 0x89,
           CHR 0xE5, CHR 0xAF, CHR 0xB9, CHR 0xE6, CHR 0x89, CHR 0x8B],
          ''competitor'']),
      (Ask_market,
         [[CHR 0xE5, CHR 0xB8, CHR 0x82, CHR 0xE5, CHR 0x9C, CHR 0xBA],
          ''market size'',
          ''tam'',
          [CHR 0xE6, CHR 0x9C, CHR 0xBA, CHR 0xE4, CHR 0xBC, CHR 0x9A]]),
      (Ask_customer,
         [[CHR 0xE5, CHR 0xAE, CHR 0xA2, CHR 0xE6, CHR 0x88, CHR 0xB7],
          [CHR 0xE7, CHR 0x94, CHR 0xA8, CHR 0xE6, CHR 0x88, CHR 0xB7,
           CHR 0xE7, CHR 0x94, CHR 0xBB, CHR 0xE5, CHR 0x83, CHR 0x8F],
          ''customer'',
          ''target audience'']),
      (Ask_report,
         [[CHR 0xE5, CHR 0xAE, CHR 0x8C, CHR 0xE6, CHR 0x95, CHR 0xB4,
           CHR 0xE6, CHR 0x8A, CHR 0xA5, CHR 0xE5, CHR 0x91, CHR 0x8A],
          [CHR 0xE8, CHR 0xAF, CHR 0x84, CHR 0xE4, CHR 0xBC, CHR 0xB0,
           CHR 0xE6, CHR 0x8A, CHR 0xA5, CHR 0xE5, CHR 0x91, CHR 0x8A],
          ''vc'',
          ''full report'',
          ''comprehensive''])]"

definition groupMatches :: "string \<Rightarrow> intent \<times> string list \<Rightarrow> bool" where
  "groupMatches lowerMessage g = list_ex (includesStr lowerMessage) (snd g)"

definition detectByGroups :: "(string \<Rightarrow> string) \<Rightarrow> string \<Rightarrow> intent" where
  "detectByGroups toLowerCase message =
     (case find (groupMatches (toLowerCase message)) keywordGroups of
        None \<Rightarrow> General
      | Some g \<Rightarrow> fst g)"

text \<open>A lower-casing of the ASCII letters, to evaluate the detection on examples.\<close>

definition asciiLower :: "string \<Rightarrow> string" where
  "asciiLower s =
     map (\<lambda>c. case map_of (zip ''ABCDEFGHIJKLMNOPQRSTUVWXYZ'' ''abcdefghijklmnopqrstuvwxyz'') c of
                 None \<Rightarrow> c | Some l \<Rightarrow> l) s"

section \<open>Reachable states\<close>

text \<open>
  The states a MemoryManager can be in: the constructed one and what its mutating
  methods make of a reachable state. \<open>wellFormed\<close> collects what the data model
  says of such a state: every stored todo has a \<open>createdAt\<close>, concerns and
  recommendations hold no string twice, and the cache has one entry per kind.
\<close>

inductive reachable :: "conversationContext \<Rightarrow> bool" where
  constructed: "reachable (newMemoryManager now sid)"
| updateIdea: "reachable c \<Longrightarrow> reachable (updateIdea now partial c)"
| cacheAnalysis: "reachable c \<Longrightarrow> reachable (cacheAnalysis now k d c)"
| setFocus: "reachable c \<Longrightarrow> reachable (setFocus now f c)"
| addRecommendation: "reachable c \<Longrightarrow> reachable (addRecommendation now x c)"
| clearRecommendations: "reachable c \<Longrightarrow> reachable (clearRecommendations now c)"
| addUserConcern: "reachable c \<Longrightarrow> reachable (addUserConcern now x c)"
| addTodo: "reachable c \<Longrightarrow> reachable (addTodo now cont active prio c)"
| updateTodos: "reachable c \<Longrightarrow> reachable (updateTodos now newTodos c)"
| updateTodoStatus: "reachable c \<Longrightarrow> reachable (updateTodoStatus now index st c)"

definition wellFormed :: "conversationContext \<Rightarrow> bool" where
  "wellFormed c \<longleftrightarrow>
     list_all (\<lambda>t. createdAt t \<noteq> None) (todos (workingMemory c))
     \<and> distinct (userConcerns (workingMemory c))
     \<and> distinct (recommendations (workingMemory c))
     \<and> distinct (map fst (analyses (workingMemory c)))"

section \<open>Example states\<close>

text \<open>Concrete states on which the theorems below are evaluated, all built with the
  operations above.\<close>

definition twoTodos :: "conversationContext" where
  "twoTodos = addTodo 20 ''Deploy'' ''Deploying'' None
                (addTodo 10 ''Fix bug'' ''Fixing bug'' (Some High) (newMemoryManager 0 ''s''))"

definition cachedCompetitor :: conversationContext where
  "cachedCompetitor =
     cacheAnalysis 1000 Competitor (Object [(''x'', Number 1)]) (newMemoryManager 0 ''s'')"

definition cachedEmpty :: conversationContext where
  "cachedEmpty = cacheAnalysis 1000 Market (String []) (newMemoryManager 0 ''s'')"

text \<open>
  Three pending todos without priority handed to \<^verbatim>\<open>updateTodos\<close> with their
  \<open>createdAt\<close>: \<open>C\<close> at time 2, \<open>B\<close> with an Invalid Date, \<open>A\<close> at time 1.
\<close>

definition invalidDateTodos :: conversationContext where
  "invalidDateTodos =
     updateTodos 5
       [\<lparr> content = ''C'', activeForm = ''Doing C'', status = Pending,
          priority = None, createdAt = Some (Date 2), completedAt = None \<rparr>,
        \<lparr> content = ''B'', activeForm = ''Doing B'', status = Pending,
          priority = None, createdAt = Some InvalidDate, completedAt = None \<rparr>,
        \<lparr> content = ''A'', activeForm = ''Doing A'', status = Pending,
          priority = None, createdAt = Some (Date 1), completedAt = None \<rparr>]
       (newMemoryManager 0 ''s'')"

text \<open>Three todos added in the reverse of their sorted order, the last then set in
  progress.\<close>

definition reversedTodos :: conversationContext where
  "reversedTodos =
     updateTodoStatus 40 2 In_progress
       (addTodo 30 ''Fix bug'' ''Fixing bug'' (Some High)
         (addTodo 20 ''Deploy'' ''Deploying'' (Some High)
           (addTodo 10 ''Docs'' ''Writing docs'' (Some Low) (newMemoryManager 0 ''s''))))"

text \<open>The scenario of the specification: three todos added in turn, the first then
  set in progress.\<close>

definition threeTodos :: conversationContext where
  "threeTodos =
     updateTodoStatus 40 0 In_progress
       (addTodo 30 ''Docs'' ''Writing docs'' (Some Low)
         (addTodo 20 ''Deploy'' ''Deploying'' (Some High)
           (addTodo 10 ''Fix bug'' ''Fixing bug'' (Some High) (newMemoryManager 0 ''s''))))"

text \<open>An idea merged from a partial object whose description is the empty string.\<close>

definition emptyIdea :: conversationContext where
  "emptyIdea =
     updateIdea 10 \<lparr> description = Some [], category = Some ''SaaS'',
                     targetMarket = Some ''SMB'', keyFeatures = None, stage = None \<rparr>
       (newMemoryManager 0 ''s'')"

text \<open>The state without its idea object.\<close>

definition dropIdea :: "conversationContext \<Rightarrow> conversationContext" where
  "dropIdea c = c\<lparr>workingMemory := (workingMemory c)\<lparr>idea := None\<rparr>\<rparr>"

section \<open>Properties\<close>

subsection \<open>Recommendations and concerns are appended once\<close>

lemma addUserConcern_list:
  "getUserConcerns (addUserConcern now x c) =
     (if x \<in> set (getUserConcerns c) then getUserConcerns c else getUserConcerns c @ [x])"
  by (simp add: addUserConcern_def getUserConcerns_def touch_def)

lemma addRecommendation_list:
  "getRecommendations (addRecommendation now x c) =
     (if x \<in> set (getRecommendations c) then getRecommendations c else getRecommendations c @ [x])"
  by (simp add: addRecommendation_def getRecommendations_def touch_def)

lemma count_list_snoc: "count_list (xs @ [x]) y = count_list xs y + (if x = y then 1 else 0)"
  by (induction xs) auto

lemma count_list_distinct: "distinct xs \<Longrightarrow> x \<in> set xs \<Longrightarrow> count_list xs x = 1"
  by (induction xs) (auto simp: count_list_0_iff)

text \<open>
  Claim C4. \<^verbatim>\<open>addUserConcern(x)\<close> and \<^verbatim>\<open>addRecommendation(x)\<close> leave their list as
  it is when \<open>x\<close> already occurs in it and append \<open>x\<close> at its end otherwise. A second
  call with the same \<open>x\<close> changes nothing more; on a list without duplicates (the
  data model's de-duplicated set, which these operations keep without duplicates)
  \<open>x\<close> then occurs exactly once. The old list is a prefix of the new one, so the
  order of insertion is kept.
\<close>

theorem add_idempotent_append:
  "getUserConcerns (addUserConcern now x c) =
     (if x \<in> set (getUserConcerns c) then getUserConcerns c else getUserConcerns c @ [x])
   \<and> getRecommendations (addRecommendation now x c) =
     (if x \<in> set (getRecommendations c) then getRecommendations c
      else getRecommendations c @ [x])
   \<and> getUserConcerns (addUserConcern now' x (addUserConcern now x c))
       = getUserConcerns (addUserConcern now x c)
   \<and> getRecommendations (addRecommendation now' x (addRecommendation now x c))
       = getRecommendations (addRecommendation now x c)
   \<and> (distinct (getUserConcerns c) \<longrightarrow>
        count_list (getUserConcerns (addUserConcern now' x (addUserConcern now x c))) x = 1
        \<and> distinct (getUserConcerns (addUserConcern now x c)))
   \<and> (distinct (getRecommendations c) \<longrightarrow>
        count_list (getRecommendations (addRecommendation now' x (addRecommendation now x c))) x = 1
        \<and> distinct (getRecommendations (addRecommendation now x c)))
   \<and> prefix (getUserConcerns c) (getUserConcerns (addUserConcern now x c))
   \<and> prefix (getRecommendations c) (getRecommendations (addRecommendation now x c))"
  by (simp add: addUserConcern_list addRecommendation_list count_list_snoc
      count_list_distinct count_list_0_iff)

theorem add_idempotent_append_witness:
  "distinct (getUserConcerns (newMemoryManager 0 ''s''))
   \<and> distinct (getRecommendations (newMemoryManager 0 ''s''))
   \<and> getUserConcerns (addUserConcern 2 ''pricing''
         (addUserConcern 1 ''pricing'' (newMemoryManager 0 ''s''))) = [''pricing'']
   \<and> count_list (getUserConcerns (addUserConcern 2 ''pricing''
         (addUserConcern 1 ''pricing'' (newMemoryManager 0 ''s'')))) ''pricing'' = 1
   \<and> count_list (getRecommendations (addRecommendation 2 ''ship''
         (addRecommendation 1 ''ship'' (newMemoryManager 0 ''s'')))) ''ship'' = 1"
  using add_idempotent_append [of 1 "''pricing''" "newMemoryManager 0 ''s''" 2]
    add_idempotent_append [of 1 "''ship''" "newMemoryManager 0 ''s''" 2]
  by (simp add: newMemoryManager_def getUserConcerns_def getRecommendations_def)

subsection \<open>Which calls update \<open>lastUpdatedAt\<close>\<close>

lemma twoTodos_todos:
  "todos (workingMemory twoTodos) =
     [\<lparr> content = ''Fix bug'', activeForm = ''Fixing bug'', status = Pending,
        priority = Some High, createdAt = Some (Date 10), completedAt = None \<rparr>,
      \<lparr> content = ''Deploy'', activeForm = ''Deploying'', status = Pending,
        priority = Some Medium, createdAt = Some (Date 20), completedAt = None \<rparr>]"
  by (simp add: twoTodos_def newMemoryManager_def addTodo_def touch_def)

text \<open>
  Claim C7, as amended. \<^verbatim>\<open>updateIdea\<close>, \<^verbatim>\<open>cacheAnalysis\<close>, \<^verbatim>\<open>setFocus\<close>,
  \<^verbatim>\<open>addTodo\<close>, \<^verbatim>\<open>updateTodos\<close> and \<^verbatim>\<open>clearRecommendations\<close> set \<open>lastUpdatedAt\<close>
  to the current time on every call. \<^verbatim>\<open>addRecommendation\<close> and \<^verbatim>\<open>addUserConcern\<close>
  do so only when the string is new, and \<^verbatim>\<open>updateTodoStatus\<close> only when the index
  is a position of the list: the call to \<^verbatim>\<open>touch\<close> sits inside their guard, and a
  call that changes nothing leaves \<open>lastUpdatedAt\<close> as it was.
\<close>

theorem mutations_touch:
  "lastUpdatedAt (updateIdea now partial c) = now
   \<and> lastUpdatedAt (cacheAnalysis now k d c) = now
   \<and> lastUpdatedAt (setFocus now f c) = now
   \<and> lastUpdatedAt (addTodo now cont active prio c) = now
   \<and> lastUpdatedAt (updateTodos now newTodos c) = now
   \<and> lastUpdatedAt (clearRecommendations now c) = now
   \<and> lastUpdatedAt (addRecommendation now x c) =
        (if x \<in> set (getRecommendations c) then lastUpdatedAt c else now)
   \<and> lastUpdatedAt (addUserConcern now x c) =
        (if x \<in> set (getUserConcerns c) then lastUpdatedAt c else now)
   \<and> lastUpdatedAt (updateTodoStatus now index st c) =
        (if 0 \<le> index \<and> index < int (length (todos (workingMemory c))) then now
         else lastUpdatedAt c)"
  by (simp add: updateIdea_def cacheAnalysis_def setFocus_def addTodo_def updateTodos_def
      clearRecommendations_def addRecommendation_def addUserConcern_def updateTodoStatus_def
      touch_def getRecommendations_def getUserConcerns_def Let_def)

theorem mutations_touch_witness:
  "lastUpdatedAt (addUserConcern 7 ''pricing'' (newMemoryManager 0 ''s'')) = 7
   \<and> lastUpdatedAt (updateTodoStatus 30 1 Completed twoTodos) = 30
   \<and> lastUpdatedAt (updateTodoStatus 30 99 Completed twoTodos) = 20"
  using mutations_touch [of 7 _ "newMemoryManager 0 ''s''" _ _ _ _ _ _ _ "''pricing''"]
    mutations_touch [of 30 _ twoTodos _ _ _ _ _ _ _ _ 1 Completed]
    mutations_touch [of 30 _ twoTodos _ _ _ _ _ _ _ _ 99 Completed]
  by (simp add: twoTodos_def newMemoryManager_def addTodo_def touch_def getUserConcerns_def)

text \<open>
  The claim as stated fails: a repeated concern, a repeated recommendation and an
  index out of range leave \<open>lastUpdatedAt\<close> at its old value, not at the time of
  the call (5000).
\<close>

theorem mutations_touch_counterexample:
  "lastUpdatedAt (addUserConcern 5000 ''pricing''
      (addUserConcern 1000 ''pricing'' (newMemoryManager 0 ''s''))) \<noteq> 5000
   \<and> lastUpdatedAt (addRecommendation 5000 ''ship''
      (addRecommendation 1000 ''ship'' (newMemoryManager 0 ''s''))) \<noteq> 5000
   \<and> lastUpdatedAt (updateTodoStatus 5000 99 Completed twoTodos) \<noteq> 5000"
  by (simp add: twoTodos_def newMemoryManager_def addTodo_def touch_def addUserConcern_def
     addRecommendation_def updateTodoStatus_def)


subsection \<open>Updating one todo by position\<close>

text \<open>
  Claim C6. For an index that is not a position of the stored list,
  \<^verbatim>\<open>updateTodoStatus\<close> returns the state it was given: nothing is raised and no todo
  changes. For a position of the list (in storage order, not in sorted order) it
  sets that todo's status; \<open>completedAt\<close> becomes the current time when the new
  status is \<open>completed\<close> and keeps its value otherwise; the todo's other fields and
  every other todo stay as they were.
\<close>

theorem updateTodoStatus_tolerant:
  "(\<not> (0 \<le> index \<and> index < int (length (todos (workingMemory c)))) \<longrightarrow>
      updateTodoStatus now index st c = c)
   \<and> (0 \<le> index \<and> index < int (length (todos (workingMemory c))) \<longrightarrow>
      (let old = todos (workingMemory c);
           new = todos (workingMemory (updateTodoStatus now index st c))
       in length new = length old
          \<and> status (new ! nat index) = st
          \<and> completedAt (new ! nat index) =
              (if st = Completed then Some (Date now) else completedAt (old ! nat index))
          \<and> content (new ! nat index) = content (old ! nat index)
          \<and> activeForm (new ! nat index) = activeForm (old ! nat index)
          \<and> priority (new ! nat index) = priority (old ! nat index)
          \<and> createdAt (new ! nat index) = createdAt (old ! nat index)
          \<and> (\<forall>j < length old. j \<noteq> nat index \<longrightarrow> new ! j = old ! j)))"
proof (cases "0 \<le> index \<and> index < int (length (todos (workingMemory c)))")
  case True
  then have "nat index < length (todos (workingMemory c))"
    by linarith
  with True show ?thesis
    by (simp add: updateTodoStatus_def Let_def touch_def)
next
  case False
  then have "updateTodoStatus now index st c = c"
    by (auto simp: updateTodoStatus_def Let_def)
  with False show ?thesis
    by blast
qed

theorem updateTodoStatus_tolerant_witness:
  "\<not> (0 \<le> (99::int) \<and> 99 < int (length (todos (workingMemory twoTodos))))
   \<and> updateTodoStatus 30 99 Completed twoTodos = twoTodos
   \<and> (0 \<le> (1::int) \<and> 1 < int (length (todos (workingMemory twoTodos))))
   \<and> status (todos (workingMemory (updateTodoStatus 30 1 Completed twoTodos)) ! 1) = Completed
   \<and> completedAt (todos (workingMemory (updateTodoStatus 30 1 Completed twoTodos)) ! 1)
       = Some (Date 30)
   \<and> todos (workingMemory (updateTodoStatus 30 1 Completed twoTodos)) ! 0
       = todos (workingMemory twoTodos) ! 0"
  using updateTodoStatus_tolerant [of 99 twoTodos 30 Completed]
    updateTodoStatus_tolerant [of 1 twoTodos 30 Completed]
  by (simp add: twoTodos_todos Let_def)

subsection \<open>Replacing the todo list\<close>

lemma find_content:
  "find (\<lambda>t. content t = k) ts = Some e \<Longrightarrow> e \<in> set ts \<and> content e = k"
  by (induction ts) (auto split: if_splits)

lemma find_content_None:
  "(find (\<lambda>t. content t = k) ts = None) = (k \<notin> content ` set ts)"
  by (induction ts) auto

lemma find_content_ex:
  assumes "k \<in> content ` set ts"
  shows "\<exists>e. find (\<lambda>t. content t = k) ts = Some e \<and> e \<in> set ts \<and> content e = k"
proof (cases "find (\<lambda>t. content t = k) ts")
  case None
  with assms show ?thesis by (simp add: find_content_None)
next
  case (Some e)
  with find_content [OF Some] show ?thesis by simp
qed

lemma updateTodos_length:
  "length (todos (workingMemory (updateTodos now newTodos c))) = length newTodos"
  by (simp add: updateTodos_def touch_def Let_def)

lemma updateTodos_nth:
  assumes "i < length newTodos"
  shows "todos (workingMemory (updateTodos now newTodos c)) ! i =
     (newTodos ! i)\<lparr>
        createdAt :=
          orElse (case find (\<lambda>t. content t = content (newTodos ! i)) (todos (workingMemory c)) of
                    None \<Rightarrow> None | Some e \<Rightarrow> createdAt e)
            (orElse (createdAt (newTodos ! i)) (Some (Date now))),
        completedAt :=
          (if status (newTodos ! i) = Completed
           then orElse (completedAt (newTodos ! i)) (Some (Date now)) else None)\<rparr>"
  using assms by (simp add: updateTodos_def touch_def Let_def)

lemma updateTodos_createdAt_kept:
  assumes "i < length newTodos"
    and "content (newTodos ! i) \<in> content ` set (todos (workingMemory c))"
  shows "\<exists>e. find (\<lambda>t. content t = content (newTodos ! i)) (todos (workingMemory c)) = Some e
           \<and> e \<in> set (todos (workingMemory c)) \<and> content e = content (newTodos ! i)
           \<and> (createdAt e \<noteq> None \<longrightarrow>
                createdAt (todos (workingMemory (updateTodos now newTodos c)) ! i) = createdAt e)"
proof -
  from find_content_ex [OF assms(2)] obtain e where
    e: "find (\<lambda>t. content t = content (newTodos ! i)) (todos (workingMemory c)) = Some e"
       "e \<in> set (todos (workingMemory c))" "content e = content (newTodos ! i)"
    by blast
  have "createdAt e \<noteq> None \<longrightarrow>
          createdAt (todos (workingMemory (updateTodos now newTodos c)) ! i) = createdAt e"
    by (auto simp: updateTodos_nth [OF assms(1)] e(1) orElse_def)
  with e show ?thesis by blast
qed

lemma updateTodos_createdAt_fresh:
  assumes "i < length newTodos"
    and "content (newTodos ! i) \<notin> content ` set (todos (workingMemory c))"
  shows "createdAt (todos (workingMemory (updateTodos now newTodos c)) ! i)
           = orElse (createdAt (newTodos ! i)) (Some (Date now))"
proof -
  have "find (\<lambda>t. content t = content (newTodos ! i)) (todos (workingMemory c)) = None"
    using assms(2) by (simp add: find_content_None)
  then show ?thesis
    by (simp add: updateTodos_nth [OF assms(1)] orElse_def)
qed

lemma updateTodos_fields:
  assumes "i < length newTodos"
  shows "content (todos (workingMemory (updateTodos now newTodos c)) ! i) = content (newTodos ! i)"
    and "activeForm (todos (workingMemory (updateTodos now newTodos c)) ! i) = activeForm (newTodos ! i)"
    and "status (todos (workingMemory (updateTodos now newTodos c)) ! i) = status (newTodos ! i)"
    and "priority (todos (workingMemory (updateTodos now newTodos c)) ! i) = priority (newTodos ! i)"
    and "completedAt (todos (workingMemory (updateTodos now newTodos c)) ! i) =
           (if status (newTodos ! i) = Completed
            then orElse (completedAt (newTodos ! i)) (Some (Date now)) else None)"
  by (simp_all add: updateTodos_nth [OF assms])

text \<open>
  Claim C5. After \<^verbatim>\<open>updateTodos(newTodos)\<close> the stored list has the incoming todos,
  one for one and in their order, with their content, active form, status and
  priority: no prior todo survives. Where the content of an incoming todo is that of
  a prior todo, the first such prior todo is found and its \<open>createdAt\<close> is the one
  stored; otherwise the incoming \<open>createdAt\<close>, or else the current time. A completed
  incoming todo without \<open>completedAt\<close> gets the current time, one with
  \<open>completedAt\<close> keeps it, and a todo that is not completed is stored without
  \<open>completedAt\<close>.
\<close>

theorem updateTodos_replaces:
  "(let old = todos (workingMemory c);
        new = todos (workingMemory (updateTodos now newTodos c))
    in length new = length newTodos
       \<and> (\<forall>i < length newTodos.
             content (new ! i) = content (newTodos ! i)
             \<and> activeForm (new ! i) = activeForm (newTodos ! i)
             \<and> status (new ! i) = status (newTodos ! i)
             \<and> priority (new ! i) = priority (newTodos ! i)
             \<and> (content (newTodos ! i) \<in> content ` set old \<longrightarrow>
                  (\<exists>e. find (\<lambda>t. content t = content (newTodos ! i)) old = Some e
                       \<and> e \<in> set old \<and> content e = content (newTodos ! i)
                       \<and> (createdAt e \<noteq> None \<longrightarrow> createdAt (new ! i) = createdAt e)))
             \<and> (content (newTodos ! i) \<notin> content ` set old \<longrightarrow>
                  createdAt (new ! i) = orElse (createdAt (newTodos ! i)) (Some (Date now)))
             \<and> (status (newTodos ! i) = Completed \<and> completedAt (newTodos ! i) = None \<longrightarrow>
                  completedAt (new ! i) = Some (Date now))
             \<and> (status (newTodos ! i) = Completed \<and> completedAt (newTodos ! i) \<noteq> None \<longrightarrow>
                  completedAt (new ! i) = completedAt (newTodos ! i))
             \<and> (status (newTodos ! i) \<noteq> Completed \<longrightarrow> completedAt (new ! i) = None)))"
  unfolding Let_def
proof (intro conjI allI impI)
  show "length (todos (workingMemory (updateTodos now newTodos c))) = length newTodos"
    by (rule updateTodos_length)
next
  fix i assume "i < length newTodos"
  then show "content (todos (workingMemory (updateTodos now newTodos c)) ! i) = content (newTodos ! i)"
    and "activeForm (todos (workingMemory (updateTodos now newTodos c)) ! i) = activeForm (newTodos ! i)"
    and "status (todos (workingMemory (updateTodos now newTodos c)) ! i) = status (newTodos ! i)"
    and "priority (todos (workingMemory (updateTodos now newTodos c)) ! i) = priority (newTodos ! i)"
    by (simp_all add: updateTodos_fields)
next
  fix i assume "i < length newTodos"
    and "content (newTodos ! i) \<in> content ` set (todos (workingMemory c))"
  then show "\<exists>e. find (\<lambda>t. content t = content (newTodos ! i)) (todos (workingMemory c)) = Some e
           \<and> e \<in> set (todos (workingMemory c)) \<and> content e = content (newTodos ! i)
           \<and> (createdAt e \<noteq> None \<longrightarrow>
                createdAt (todos (workingMemory (updateTodos now newTodos c)) ! i) = createdAt e)"
    by (rule updateTodos_createdAt_kept)
next
  fix i assume "i < length newTodos"
    and "content (newTodos ! i) \<notin> content ` set (todos (workingMemory c))"
  then show "createdAt (todos (workingMemory (updateTodos now newTodos c)) ! i)
           = orElse (createdAt (newTodos ! i)) (Some (Date now))"
    by (rule updateTodos_createdAt_fresh)
next
  fix i assume "i < length newTodos"
    and "status (newTodos ! i) = Completed \<and> completedAt (newTodos ! i) = None"
  then show "completedAt (todos (workingMemory (updateTodos now newTodos c)) ! i) = Some (Date now)"
    by (simp add: updateTodos_fields orElse_def)
next
  fix i assume "i < length newTodos"
    and "status (newTodos ! i) = Completed \<and> completedAt (newTodos ! i) \<noteq> None"
  then show "completedAt (todos (workingMemory (updateTodos now newTodos c)) ! i)
      = completedAt (newTodos ! i)"
    by (auto simp: updateTodos_fields orElse_def)
next
  fix i assume "i < length newTodos" and "status (newTodos ! i) \<noteq> Completed"
  then show "completedAt (todos (workingMemory (updateTodos now newTodos c)) ! i) = None"
    by (simp add: updateTodos_fields)
qed

theorem updateTodos_replaces_witness:
  "todos (workingMemory (updateTodos 50
      [\<lparr> content = ''Fix bug'', activeForm = ''Fixing bug'', status = Completed,
         priority = Some High, createdAt = None, completedAt = None \<rparr>,
       \<lparr> content = ''Docs'', activeForm = ''Writing docs'', status = Pending,
         priority = None, createdAt = None, completedAt = Some (Date 5) \<rparr>] twoTodos))
   = [\<lparr> content = ''Fix bug'', activeForm = ''Fixing bug'', status = Completed,
         priority = Some High, createdAt = Some (Date 10), completedAt = Some (Date 50) \<rparr>,
      \<lparr> content = ''Docs'', activeForm = ''Writing docs'', status = Pending,
         priority = None, createdAt = Some (Date 50), completedAt = None \<rparr>]"
  using updateTodos_replaces [of twoTodos 50
      "[\<lparr> content = ''Fix bug'', activeForm = ''Fixing bug'', status = Completed,
         priority = Some High, createdAt = None, completedAt = None \<rparr>,
       \<lparr> content = ''Docs'', activeForm = ''Writing docs'', status = Pending,
         priority = None, createdAt = None, completedAt = Some (Date 5) \<rparr>]"]
  by (simp add: twoTodos_todos updateTodos_def touch_def orElse_def Let_def)


subsection \<open>The analysis cache and its expiry\<close>

lemma maxAge_value: "maxAge = 3600000"
  by (simp add: maxAge_def)

lemma getCachedAnalysis_fst:
  "fst (getCachedAnalysis now k c) =
     (case map_of (analyses (workingMemory c)) k of
        None \<Rightarrow> Undefined
      | Some e \<Rightarrow> if now - timestamp e \<le> 3600000 then data e else Undefined)"
  by (simp add: getCachedAnalysis_def Let_def maxAge_def split: option.splits)

lemma getCachedAnalysis_snd: "snd (getCachedAnalysis now k c) = c"
  by (simp add: getCachedAnalysis_def Let_def split: option.splits)

lemma analyses_cacheAnalysis:
  "map_of (analyses (workingMemory (cacheAnalysis t0 k d c))) =
     (map_of (analyses (workingMemory c)))(k \<mapsto> \<lparr> data = d, timestamp = t0 \<rparr>)"
  by (simp add: cacheAnalysis_def touch_def update_conv')

text \<open>
  Claim C2. \<^verbatim>\<open>getCachedAnalysis(kind)\<close> returns the cached data when an entry for
  the kind exists and \<open>now - timestamp\<close> is at most one hour (3600000 ms), and
  undefined when there is no entry or the entry is older; it raises nothing and
  leaves the state, the expired entry included, as it was. After
  \<^verbatim>\<open>cacheAnalysis(kind, d)\<close> at time \<open>t0\<close> it returns \<open>d\<close> up to \<open>t0\<close> plus one
  hour, and the entry is still stored afterwards.
\<close>

theorem getCachedAnalysis_ttl:
  "fst (getCachedAnalysis now k c) =
     (case map_of (analyses (workingMemory c)) k of
        None \<Rightarrow> Undefined
      | Some e \<Rightarrow> if now - timestamp e \<le> 3600000 then data e else Undefined)
   \<and> snd (getCachedAnalysis now k c) = c
   \<and> fst (getCachedAnalysis now k (cacheAnalysis t0 k d c)) =
       (if now - t0 \<le> 3600000 then d else Undefined)
   \<and> map_of (analyses (workingMemory (snd (getCachedAnalysis now k (cacheAnalysis t0 k d c))))) k
       = Some \<lparr> data = d, timestamp = t0 \<rparr>"
  by (simp add: getCachedAnalysis_fst getCachedAnalysis_snd analyses_cacheAnalysis)

theorem getCachedAnalysis_ttl_witness:
  "fst (getCachedAnalysis 1000 Competitor cachedCompetitor) = Object [(''x'', Number 1)]
   \<and> fst (getCachedAnalysis (1000 + 3600000) Competitor cachedCompetitor) = Object [(''x'', Number 1)]
   \<and> fst (getCachedAnalysis (1000 + 3600001) Competitor cachedCompetitor) = Undefined
   \<and> fst (getCachedAnalysis (1000 + 61 * 60 * 1000) Competitor cachedCompetitor) = Undefined
   \<and> fst (getCachedAnalysis 1000 Market cachedCompetitor) = Undefined
   \<and> snd (getCachedAnalysis (1000 + 3600001) Competitor cachedCompetitor) = cachedCompetitor"
  using getCachedAnalysis_ttl [of 1000 Competitor "newMemoryManager 0 ''s''" 1000 "Object [(''x'', Number 1)]"]
    getCachedAnalysis_ttl [of "1000 + 3600000" Competitor "newMemoryManager 0 ''s''" 1000 "Object [(''x'', Number 1)]"]
    getCachedAnalysis_ttl [of "1000 + 3600001" Competitor "newMemoryManager 0 ''s''" 1000 "Object [(''x'', Number 1)]"]
    getCachedAnalysis_ttl [of "1000 + 61 * 60 * 1000" Competitor "newMemoryManager 0 ''s''" 1000 "Object [(''x'', Number 1)]"]
    getCachedAnalysis_ttl [of 1000 Market cachedCompetitor]
    getCachedAnalysis_ttl [of "1000 + 3600001" Competitor cachedCompetitor]
  by (simp add: cachedCompetitor_def analyses_cacheAnalysis getCachedAnalysis_snd newMemoryManager_def)

subsection \<open>Completed analyses\<close>

lemma hasAnalysis_iff:
  "hasAnalysis now k c \<longleftrightarrow>
     (\<exists>e. map_of (analyses (workingMemory c)) k = Some e
          \<and> now - timestamp e \<le> 3600000 \<and> truthy (data e))"
  by (auto simp: hasAnalysis_def getCachedAnalysis_fst split: option.splits)

text \<open>
  Claim C3 does not hold of the code. \<^verbatim>\<open>hasAnalysis\<close> is
  \<^verbatim>\<open>!!this.getCachedAnalysis(type)\<close>, the truthiness of the cached data, so an
  entry that is present and unexpired but holds the empty string, 0, null or false
  is reported as not completed, and \<^verbatim>\<open>getCompletedAnalyses\<close> leaves its kind out.
  The evaluation below caches the empty string for \<open>market\<close> at time 1000 and asks
  at time 2000.
\<close>

theorem hasAnalysis_falsy_data:
  "map_of (analyses (workingMemory cachedEmpty)) Market = Some \<lparr> data = String [], timestamp = 1000 \<rparr>
   \<and> 2000 - 1000 \<le> maxAge
   \<and> fst (getCachedAnalysis 2000 Market cachedEmpty) = String []
   \<and> hasAnalysis 2000 Market cachedEmpty = False
   \<and> getCompletedAnalyses 2000 cachedEmpty = []
   \<and> hasAnalysis 2000 Market (cacheAnalysis 1000 Market (Number 0) (newMemoryManager 0 ''s'')) = False
   \<and> hasAnalysis 2000 Market (cacheAnalysis 1000 Market Null (newMemoryManager 0 ''s'')) = False
   \<and> hasAnalysis 2000 Market (cacheAnalysis 1000 Market (Boolean False) (newMemoryManager 0 ''s'')) = False
   \<and> hasAnalysis 2000 Market (cacheAnalysis 1000 Market (String ''x'') (newMemoryManager 0 ''s'')) = True"
  by (simp add: cachedEmpty_def hasAnalysis_iff getCachedAnalysis_fst analyses_cacheAnalysis
      maxAge_value getCompletedAnalyses_def cacheAnalysis_def touch_def newMemoryManager_def)

subsection \<open>The three-tier sort\<close>

lemma statusDiff_rank:
  "STATUS_PRIORITY (status a) - STATUS_PRIORITY (status b) = statusRank a - statusRank b"
  by (cases "status a"; cases "status b") (simp_all add: statusRank_def)

lemma PRIORITY_MAP_rank:
  "PRIORITY_MAP (case priority t of None \<Rightarrow> Medium | Some p \<Rightarrow> p) = priorityRank t"
  by (simp add: priorityRank_def split: option.splits todoPriority.splits)

lemma compareTodos_ranks:
  "compareTodos a b =
     (if statusRank a \<noteq> statusRank b then Some (statusRank a - statusRank b)
      else if priorityRank a \<noteq> priorityRank b then Some (priorityRank a - priorityRank b)
      else (case (createdAt a, createdAt b) of
              (Some da, Some db) \<Rightarrow>
                (case (getTime da, getTime db) of
                   (Some ta, Some tb) \<Rightarrow> Some (ta - tb)
                 | _ \<Rightarrow> None)
            | _ \<Rightarrow> Some 0))"
  by (simp add: compareTodos_def Let_def statusDiff_rank PRIORITY_MAP_rank)

lemma stampedE:
  assumes "stamped t"
  obtains ms where "createdAt t = Some (Date ms)"
  using assms by (auto simp: stamped_def split: option.splits date.splits)

text \<open>On todos whose \<open>createdAt\<close> is a time, the comparator is the three-tier order
  and the lexicographic order of the keys.\<close>

lemma sortCompare_threeTier:
  assumes "stamped a" and "stamped b"
  shows "sortCompare compareTodos a b \<le> 0 \<longleftrightarrow> threeTierLe a b"
proof -
  from assms obtain ta tb where "createdAt a = Some (Date ta)" "createdAt b = Some (Date tb)"
    by (auto elim!: stampedE)
  then show ?thesis
    by (auto simp: sortCompare_def compareTodos_ranks threeTierLe_def)
qed

lemma sortCompare_sortKey:
  assumes "stamped a" and "stamped b"
  shows "sortCompare compareTodos a b \<le> 0 \<longleftrightarrow> sortKey a \<le> sortKey b"
proof -
  from assms obtain ta tb where "createdAt a = Some (Date ta)" "createdAt b = Some (Date tb)"
    by (auto elim!: stampedE)
  then show ?thesis
    by (auto simp: sortCompare_def compareTodos_ranks sortKey_def)
qed

lemma mset_insertBy: "mset (insertBy cmp x ys) = add_mset x (mset ys)"
  by (induction ys) auto

lemma arraySort_Cons: "arraySort cmp (x # xs) = insertBy cmp x (arraySort cmp xs)"
  by (simp add: arraySort_def)

lemma arraySort_Nil: "arraySort cmp [] = []"
  by (simp add: arraySort_def)

lemma mset_arraySort: "mset (arraySort cmp xs) = mset xs"
  by (induction xs) (simp_all add: arraySort_Nil arraySort_Cons mset_insertBy)

lemma set_arraySort: "set (arraySort cmp xs) = set xs"
  using mset_arraySort [of cmp xs] by (metis set_mset_mset)

lemma length_arraySort: "length (arraySort cmp xs) = length xs"
  using mset_arraySort [of cmp xs] by (metis size_mset)

lemma insertBy_insort_key:
  assumes "stamped x" and "list_all stamped ys"
  shows "insertBy compareTodos x ys = insort_key sortKey x ys"
  using assms by (induction ys) (simp_all add: sortCompare_sortKey)

lemma arraySort_sort_key:
  assumes "list_all stamped xs"
  shows "arraySort compareTodos xs = sort_key sortKey xs"
  using assms
proof (induction xs)
  case Nil
  then show ?case by (simp add: arraySort_Nil)
next
  case (Cons x xs)
  then have "list_all stamped (sort_key sortKey xs)"
    by (simp add: list_all_iff)
  with Cons show ?case
    by (simp add: arraySort_Cons insertBy_insort_key sort_key_def [symmetric])
qed

lemma threeTier_arraySort:
  assumes "list_all stamped xs"
  shows "sorted_wrt threeTierLe (arraySort compareTodos xs)"
proof -
  have "sorted (map sortKey (sort_key sortKey xs))"
    by simp
  then have "sorted_wrt (\<lambda>a b. sortKey a \<le> sortKey b) (sort_key sortKey xs)"
    by (simp add: sorted_map)
  moreover have "threeTierLe a b"
    if "a \<in> set (sort_key sortKey xs)" "b \<in> set (sort_key sortKey xs)" "sortKey a \<le> sortKey b"
    for a b
  proof -
    from that assms have "stamped a" "stamped b"
      by (simp_all add: list_all_iff)
    with that(3) show ?thesis
      by (simp add: sortCompare_sortKey [symmetric] sortCompare_threeTier)
  qed
  ultimately have "sorted_wrt threeTierLe (sort_key sortKey xs)"
    by (rule sorted_wrt_mono_rel [rotated]) blast
  then show ?thesis
    by (simp add: arraySort_sort_key [OF assms])
qed

lemma tiedKeys_sortKey:
  assumes "stamped t" and "stamped u"
  shows "tiedKeys t u \<longleftrightarrow> sortKey u = sortKey t"
proof -
  from assms obtain a b where "createdAt t = Some (Date a)" "createdAt u = Some (Date b)"
    by (auto elim!: stampedE)
  then show ?thesis
    by (auto simp: tiedKeys_def sortKey_def)
qed

lemma stable_arraySort:
  assumes "list_all stamped xs"
  shows "filter (tiedKeys t) (arraySort compareTodos xs) = filter (tiedKeys t) xs"
proof (cases "stamped t")
  case True
  have eq: "filter (tiedKeys t) ys = filter (\<lambda>u. sortKey u = sortKey t) ys"
    if "set ys = set xs" for ys
    using that True assms
    by (intro filter_cong refl) (simp add: tiedKeys_sortKey list_all_iff)
  show ?thesis
    by (simp add: eq set_arraySort arraySort_sort_key [OF assms] sort_key_stable)
next
  case False
  have "\<not> tiedKeys t u" if "u \<in> set xs" for u
  proof
    assume "tiedKeys t u"
    then have "createdAt t = createdAt u"
      by (simp add: tiedKeys_def)
    moreover from that assms have "stamped u"
      by (simp add: list_all_iff)
    ultimately have "stamped t"
      by (simp add: stamped_def)
    with False show False ..
  qed
  then show ?thesis
    by (simp add: set_arraySort filter_False [unfolded o_def])
qed

text \<open>
  What the claim says of \<^verbatim>\<open>sortTodos()\<close> holds of every stored list whose todos all
  have a time as \<open>createdAt\<close>: the result is a permutation of the list in three-tier
  order, and todos with the same three keys keep their storage order.
\<close>

lemma sortTodos_stamped:
  assumes "list_all stamped (todos (workingMemory c))"
  shows "mset (sortTodos c) = mset (todos (workingMemory c))
    \<and> getTodos c = sortTodos c
    \<and> sorted_wrt threeTierLe (sortTodos c)
    \<and> (\<forall>t. filter (tiedKeys t) (sortTodos c) = filter (tiedKeys t) (todos (workingMemory c)))"
  using threeTier_arraySort [OF assms] stable_arraySort [OF assms]
  by (simp add: sortTodos_def getTodos_def mset_arraySort)

lemma reversedTodos_todos:
  "todos (workingMemory reversedTodos) =
     [\<lparr> content = ''Docs'', activeForm = ''Writing docs'', status = Pending,
        priority = Some Low, createdAt = Some (Date 10), completedAt = None \<rparr>,
      \<lparr> content = ''Deploy'', activeForm = ''Deploying'', status = Pending,
        priority = Some High, createdAt = Some (Date 20), completedAt = None \<rparr>,
      \<lparr> content = ''Fix bug'', activeForm = ''Fixing bug'', status = In_progress,
        priority = Some High, createdAt = Some (Date 30), completedAt = None \<rparr>]"
  by (simp add: reversedTodos_def newMemoryManager_def addTodo_def updateTodoStatus_def
      touch_def Let_def)

lemma sortTodos_reversedTodos:
  "list_all stamped (todos (workingMemory reversedTodos))
   \<and> map content (todos (workingMemory reversedTodos)) = [''Docs'', ''Deploy'', ''Fix bug'']
   \<and> map content (getTodos reversedTodos) = [''Fix bug'', ''Deploy'', ''Docs'']
   \<and> sorted_wrt threeTierLe (getTodos reversedTodos)"
proof -
  have all: "list_all stamped (todos (workingMemory reversedTodos))"
    by (simp add: reversedTodos_todos stamped_def)
  have "map content (getTodos reversedTodos) = [''Fix bug'', ''Deploy'', ''Docs'']"
    by (simp add: getTodos_def sortTodos_def reversedTodos_todos arraySort_def
        sortCompare_def compareTodos_def)
  with all sortTodos_stamped [OF all] show ?thesis
    by (simp add: reversedTodos_todos)
qed

lemma threeTodos_todos:
  "todos (workingMemory threeTodos) =
     [\<lparr> content = ''Fix bug'', activeForm = ''Fixing bug'', status = In_progress,
        priority = Some High, createdAt = Some (Date 10), completedAt = None \<rparr>,
      \<lparr> content = ''Deploy'', activeForm = ''Deploying'', status = Pending,
        priority = Some High, createdAt = Some (Date 20), completedAt = None \<rparr>,
      \<lparr> content = ''Docs'', activeForm = ''Writing docs'', status = Pending,
        priority = Some Low, createdAt = Some (Date 30), completedAt = None \<rparr>]"
  by (simp add: threeTodos_def newMemoryManager_def addTodo_def updateTodoStatus_def touch_def Let_def)

lemma invalidDateTodos_todos:
  "todos (workingMemory invalidDateTodos) =
     [\<lparr> content = ''C'', activeForm = ''Doing C'', status = Pending,
        priority = None, createdAt = Some (Date 2), completedAt = None \<rparr>,
      \<lparr> content = ''B'', activeForm = ''Doing B'', status = Pending,
        priority = None, createdAt = Some InvalidDate, completedAt = None \<rparr>,
      \<lparr> content = ''A'', activeForm = ''Doing A'', status = Pending,
        priority = None, createdAt = Some (Date 1), completedAt = None \<rparr>]"
  by (simp add: invalidDateTodos_def updateTodos_def newMemoryManager_def touch_def orElse_def)

lemma invalidDateTodos_reachable: "reachable invalidDateTodos"
  unfolding invalidDateTodos_def
  by (intro reachable.updateTodos reachable.constructed)

text \<open>
  Claim C1 does not hold of the code. The comparator subtracts the two
  \<^verbatim>\<open>getTime()\<close> values whenever both todos have a \<open>createdAt\<close>, also when one of
  them is an Invalid Date: the result is then NaN, which \<^verbatim>\<open>sort\<close> reads as a tie.
  After \<^verbatim>\<open>updateTodos\<close> has stored \<open>C\<close> (created at 2), \<open>B\<close> (Invalid Date) and
  \<open>A\<close> (created at 1), all pending and of medium priority, each todo ties with its
  neighbour, \<^verbatim>\<open>sortTodos()\<close> returns the list as stored, and \<open>C\<close> stands before
  \<open>A\<close> although \<open>A\<close> was created earlier: the result is not in three-tier order.
\<close>

theorem sortTodos_invalid_date:
  "map content (todos (workingMemory invalidDateTodos)) = [''C'', ''B'', ''A'']
   \<and> map createdAt (todos (workingMemory invalidDateTodos))
       = [Some (Date 2), Some InvalidDate, Some (Date 1)]
   \<and> map statusRank (todos (workingMemory invalidDateTodos)) = [1, 1, 1]
   \<and> map priorityRank (todos (workingMemory invalidDateTodos)) = [1, 1, 1]
   \<and> compareTodos (todos (workingMemory invalidDateTodos) ! 0)
        (todos (workingMemory invalidDateTodos) ! 1) = None
   \<and> compareTodos (todos (workingMemory invalidDateTodos) ! 1)
        (todos (workingMemory invalidDateTodos) ! 2) = None
   \<and> map content (sortTodos invalidDateTodos) = [''C'', ''B'', ''A'']
   \<and> map content (getTodos invalidDateTodos) = [''C'', ''B'', ''A'']
   \<and> \<not> sorted_wrt threeTierLe (sortTodos invalidDateTodos)"
proof -
  have sorted: "sortTodos invalidDateTodos = todos (workingMemory invalidDateTodos)"
    by (simp add: sortTodos_def invalidDateTodos_todos arraySort_def sortCompare_def
        compareTodos_def)
  show ?thesis
    unfolding getTodos_def sorted
    by (simp add: invalidDateTodos_todos compareTodos_def threeTierLe_def statusRank_def
        priorityRank_def)
qed

subsection \<open>The context summary\<close>

lemma getTodos_Nil_iff: "getTodos c = [] \<longleftrightarrow> todos (workingMemory c) = []"
  using length_arraySort [of compareTodos "todos (workingMemory c)"]
  by (simp add: getTodos_def sortTodos_def del: length_0_conv flip: length_0_conv)

lemma ideaParts_Nil_iff: "ideaParts c = [] \<longleftrightarrow> \<not> hasIdea c"
  by (auto simp: ideaParts_def hasIdea_def getIdea_def split: option.splits)

lemma analysesParts_Nil_iff: "analysesParts now c = [] \<longleftrightarrow> getCompletedAnalyses now c = []"
  by (simp add: analysesParts_def Let_def)

lemma focusParts_Nil_iff: "focusParts c = [] \<longleftrightarrow> getFocus c = None"
  by (simp add: focusParts_def split: option.splits)

lemma concernParts_Nil_iff: "concernParts c = [] \<longleftrightarrow> getUserConcerns c = []"
  by (simp add: concernParts_def Let_def)

lemma recommendationParts_Nil_iff: "recommendationParts c = [] \<longleftrightarrow> getRecommendations c = []"
  by (simp add: recommendationParts_def Let_def)

lemma todoParts_Nil_iff: "todoParts c = [] \<longleftrightarrow> todos (workingMemory c) = []"
  using getTodos_Nil_iff [of c] by (simp add: todoParts_def Let_def)

lemma nl_not_Nil: "nl \<noteq> []"
  by (simp add: nl_def)

text \<open>
  The summary in terms of the manager's own queries. It is the empty string exactly
  when \<^verbatim>\<open>hasIdea()\<close> is false, \<^verbatim>\<open>getCompletedAnalyses()\<close> is empty, no focus is
  set and there are no concerns, no recommendations and no todos; a freshly
  constructed MemoryManager is such a state. In every other state it is the block
  made of the line \<open>--- CONTEXT ---\<close>, the sections joined by newlines, and the
  line \<open>--- END CONTEXT ---\<close>; the string opens with a newline before the first
  marker and closes with one after the last.
\<close>

lemma buildContextSummary_by_queries:
  "buildContextSummary now c =
     (if \<not> hasIdea c \<and> getCompletedAnalyses now c = [] \<and> getFocus c = None
          \<and> getUserConcerns c = [] \<and> getRecommendations c = []
          \<and> todos (workingMemory c) = []
      then []
      else nl @ ''--- CONTEXT ---'' @ nl
           @ join nl (ideaParts c @ analysesParts now c @ focusParts c @ concernParts c
                      @ recommendationParts c @ todoParts c)
           @ nl @ ''--- END CONTEXT ---'' @ nl)
   \<and> (buildContextSummary now c = [] \<longleftrightarrow>
        \<not> hasIdea c \<and> getCompletedAnalyses now c = [] \<and> getFocus c = None
        \<and> getUserConcerns c = [] \<and> getRecommendations c = []
        \<and> todos (workingMemory c) = [])
   \<and> buildContextSummary now (newMemoryManager t sid) = []"
proof -
  let ?parts = "ideaParts c @ analysesParts now c @ focusParts c @ concernParts c
                      @ recommendationParts c @ todoParts c"
  let ?empty = "\<not> hasIdea c \<and> getCompletedAnalyses now c = [] \<and> getFocus c = None
          \<and> getUserConcerns c = [] \<and> getRecommendations c = []
          \<and> todos (workingMemory c) = []"
  have parts: "?parts = [] \<longleftrightarrow> ?empty"
    by (simp add: ideaParts_Nil_iff analysesParts_Nil_iff focusParts_Nil_iff
        concernParts_Nil_iff recommendationParts_Nil_iff todoParts_Nil_iff)
  have build: "buildContextSummary now c =
     (if ?parts = [] then []
      else nl @ ''--- CONTEXT ---'' @ nl @ join nl ?parts @ nl @ ''--- END CONTEXT ---'' @ nl)"
    by (simp add: buildContextSummary_def Let_def del: append_is_Nil_conv)
  have first: "buildContextSummary now c =
     (if ?empty then []
      else nl @ ''--- CONTEXT ---'' @ nl @ join nl ?parts @ nl @ ''--- END CONTEXT ---'' @ nl)"
    unfolding build parts ..
  have second: "buildContextSummary now c = [] \<longleftrightarrow> ?empty"
    unfolding first by (simp add: nl_not_Nil)
  have fresh: "buildContextSummary now (newMemoryManager t sid) = []"
    by (simp add: buildContextSummary_def ideaParts_def analysesParts_def focusParts_def
        concernParts_def recommendationParts_def todoParts_def hasIdea_def
        getCompletedAnalyses_def getFocus_def getUserConcerns_def getRecommendations_def
        getTodos_def sortTodos_def arraySort_def newMemoryManager_def)
  from first second fresh show ?thesis
    by blast
qed


lemma buildContextSummary_one_concern:
  "buildContextSummary 5 (newMemoryManager 0 ''s'') = []
   \<and> buildContextSummary 5 (addUserConcern 1 ''pricing'' (newMemoryManager 0 ''s''))
       = nl @ ''--- CONTEXT ---'' @ nl
         @ nl @ ''USER CONCERNS:'' @ nl @ ''- pricing''
         @ nl @ ''--- END CONTEXT ---'' @ nl"
proof -
  let ?c = "addUserConcern 1 ''pricing'' (newMemoryManager 0 ''s'')"
  have "getUserConcerns ?c = [''pricing'']"
    by (simp add: addUserConcern_def touch_def newMemoryManager_def getUserConcerns_def)
  moreover have "ideaParts ?c @ analysesParts 5 ?c @ focusParts ?c @ concernParts ?c
                      @ recommendationParts ?c @ todoParts ?c
         = [nl @ ''USER CONCERNS:'' @ nl @ ''- pricing'']"
    by (simp add: addUserConcern_def touch_def ideaParts_def analysesParts_def focusParts_def
        concernParts_def recommendationParts_def todoParts_def hasIdea_def
        getCompletedAnalyses_def getFocus_def getUserConcerns_def getRecommendations_def
        getTodos_def sortTodos_def arraySort_def newMemoryManager_def)
  ultimately show ?thesis
    using buildContextSummary_by_queries [of 5 "newMemoryManager 0 ''s''" 0 "''s''"]
      buildContextSummary_by_queries [of 5 ?c 0 "''s''"]
    by simp
qed

text \<open>
  Claim C8 does not hold of the code. A working memory whose only content is a cached
  analysis that is present and unexpired, but whose data is the empty string (or 0,
  null, false), is not one without completed analyses, and the claim says that the
  summary is then a block between the two marker lines. The summary asks
  \<^verbatim>\<open>getCompletedAnalyses()\<close>, which goes through the truthiness test of
  \<^verbatim>\<open>hasAnalysis\<close> (see claim C3), finds nothing to push and returns the empty
  string. With the data \<open>x\<close> in place of the empty string the block is returned.
\<close>

theorem buildContextSummary_falsy_analysis:
  "map_of (analyses (workingMemory cachedEmpty)) Market
     = Some \<lparr> data = String [], timestamp = 1000 \<rparr>
   \<and> 2000 - 1000 \<le> maxAge
   \<and> buildContextSummary 2000 cachedEmpty = []
   \<and> buildContextSummary 2000
        (cacheAnalysis 1000 Market (String ''x'') (newMemoryManager 0 ''s''))
       = nl @ ''--- CONTEXT ---'' @ nl
         @ nl @ ''COMPLETED ANALYSES: market''
         @ nl @ ''--- END CONTEXT ---'' @ nl"
  by (simp add: cachedEmpty_def buildContextSummary_def ideaParts_def analysesParts_def
      focusParts_def concernParts_def recommendationParts_def todoParts_def hasIdea_def
      getCompletedAnalyses_def hasAnalysis_def getCachedAnalysis_fst getFocus_def
      getUserConcerns_def getRecommendations_def getTodos_def sortTodos_def arraySort_def
      cacheAnalysis_def touch_def newMemoryManager_def maxAge_def)

text \<open>The block of the three-todo scenario, evaluated.\<close>

lemma showNat_digit: "n < 10 \<Longrightarrow> showNat n = [digit n]"
  by simp

lemma buildContextSummary_threeTodos:
  "buildContextSummary 50 threeTodos =
     nl @ ''--- CONTEXT ---'' @ nl
     @ nl @ ''TODOS (0/3 completed):'' @ nl
     @ ''  1. '' @ [CHR 0xE2, CHR 0x9A, CHR 0xA1] @ '' Fix bug [HIGH]'' @ nl
     @ ''  2. '' @ [CHR 0xE2, CHR 0x8F, CHR 0xB3] @ '' Deploy [HIGH]'' @ nl
     @ ''  3. '' @ [CHR 0xE2, CHR 0x8F, CHR 0xB3] @ '' Docs [LOW]'' @ nl
     @ nl @ ''CURRENT TASK: Fixing bug''
     @ nl @ ''--- END CONTEXT ---'' @ nl"
proof -
  have wm: "idea (workingMemory threeTodos) = None" "analyses (workingMemory threeTodos) = []"
    "currentFocus (workingMemory threeTodos) = None"
    "recommendations (workingMemory threeTodos) = []"
    "userConcerns (workingMemory threeTodos) = []"
    by (simp_all add: threeTodos_def newMemoryManager_def addTodo_def updateTodoStatus_def
        touch_def Let_def)
  have sorted: "getTodos threeTodos = todos (workingMemory threeTodos)"
    by (simp add: getTodos_def sortTodos_def threeTodos_todos arraySort_def sortCompare_def
        compareTodos_def)
  have other: "ideaParts threeTodos = []" "analysesParts 50 threeTodos = []"
    "focusParts threeTodos = []" "concernParts threeTodos = []"
    "recommendationParts threeTodos = []"
    by (simp_all add: wm ideaParts_def analysesParts_def focusParts_def
        concernParts_def recommendationParts_def hasIdea_def
        getCompletedAnalyses_def getFocus_def getUserConcerns_def getRecommendations_def)
  have tp: "todoParts threeTodos =
     [nl @ ''TODOS (0/3 completed):'',
      ''  1. '' @ [CHR 0xE2, CHR 0x9A, CHR 0xA1] @ '' Fix bug [HIGH]'',
      ''  2. '' @ [CHR 0xE2, CHR 0x8F, CHR 0xB3] @ '' Deploy [HIGH]'',
      ''  3. '' @ [CHR 0xE2, CHR 0x8F, CHR 0xB3] @ '' Docs [LOW]'',
      nl @ ''CURRENT TASK: Fixing bug'']"
    unfolding todoParts_def sorted
    by (simp add: threeTodos_todos getProgress_def getCurrentTodo_def Let_def showNat_digit
        digit_def statusIcon_def priorityTag_def del: showNat.simps)
  show ?thesis
    by (simp add: buildContextSummary_def other tp)
qed

subsection \<open>An idea without a description\<close>

text \<open>
  Claim C10. When the idea object is set but its description is the empty string,
  \<^verbatim>\<open>getIdea()\<close> returns the object, \<^verbatim>\<open>hasIdea()\<close> is false and
  \<^verbatim>\<open>buildContextSummary()\<close> pushes no line of the STARTUP IDEA section, target
  market and category included: the summary is the one of the same state without
  the idea object. \<^verbatim>\<open>updateIdea\<close> with the description set to the empty string
  leads to such a state.
\<close>

theorem empty_description_no_idea:
  "(idea (workingMemory c) = Some i \<and> description i = Some [] \<longrightarrow>
      getIdea c = Some i \<and> \<not> hasIdea c \<and> ideaParts c = []
      \<and> buildContextSummary now c = buildContextSummary now (dropIdea c))
   \<and> (description partial = Some [] \<longrightarrow>
      getIdea (updateIdea t partial c) \<noteq> None \<and> \<not> hasIdea (updateIdea t partial c))"
proof -
  have same: "analysesParts now (dropIdea c) = analysesParts now c"
    "focusParts (dropIdea c) = focusParts c" "concernParts (dropIdea c) = concernParts c"
    "recommendationParts (dropIdea c) = recommendationParts c"
    "todoParts (dropIdea c) = todoParts c" "ideaParts (dropIdea c) = []"
    by (simp_all add: dropIdea_def analysesParts_def focusParts_def concernParts_def
        recommendationParts_def todoParts_def ideaParts_def hasIdea_def
        getCompletedAnalyses_def hasAnalysis_def getCachedAnalysis_fst getFocus_def
        getUserConcerns_def getRecommendations_def getTodos_def sortTodos_def
        getProgress_def getCurrentTodo_def Let_def)
  have "getIdea c = Some i \<and> \<not> hasIdea c \<and> ideaParts c = []
      \<and> buildContextSummary now c = buildContextSummary now (dropIdea c)"
    if "idea (workingMemory c) = Some i" "description i = Some []"
  proof -
    from that have no: "\<not> hasIdea c"
      by (simp add: hasIdea_def)
    then have "ideaParts c = []"
      by (simp add: ideaParts_def)
    with no that(1) show ?thesis
      by (simp add: getIdea_def buildContextSummary_def same)
  qed
  moreover have "getIdea (updateIdea t partial c) \<noteq> None \<and> \<not> hasIdea (updateIdea t partial c)"
    if "description partial = Some []"
    using that by (simp add: getIdea_def hasIdea_def updateIdea_def touch_def spread_def Let_def)
  ultimately show ?thesis
    by blast
qed

theorem empty_description_no_idea_witness:
  "idea (workingMemory emptyIdea)
     = Some \<lparr> description = Some [], category = Some ''SaaS'', targetMarket = Some ''SMB'',
              keyFeatures = None, stage = None \<rparr>
   \<and> getIdea emptyIdea \<noteq> None
   \<and> \<not> hasIdea emptyIdea
   \<and> buildContextSummary 20 emptyIdea = buildContextSummary 20 (dropIdea emptyIdea)
   \<and> buildContextSummary 20 emptyIdea = []"
proof -
  have i: "idea (workingMemory emptyIdea)
     = Some \<lparr> description = Some [], category = Some ''SaaS'', targetMarket = Some ''SMB'',
              keyFeatures = None, stage = None \<rparr>"
    by (simp add: emptyIdea_def updateIdea_def touch_def spread_def newMemoryManager_def)
  have d: "dropIdea emptyIdea = (newMemoryManager 0 ''s'')\<lparr>lastUpdatedAt := 10\<rparr>"
    by (simp add: emptyIdea_def dropIdea_def updateIdea_def touch_def newMemoryManager_def)
  have e: "buildContextSummary 20 (dropIdea emptyIdea) = []"
    unfolding d
    by (simp add: buildContextSummary_def ideaParts_def analysesParts_def focusParts_def
        concernParts_def recommendationParts_def todoParts_def hasIdea_def
        getCompletedAnalyses_def getFocus_def getUserConcerns_def getRecommendations_def
        getTodos_def sortTodos_def arraySort_def newMemoryManager_def)
  from empty_description_no_idea [of emptyIdea
         "\<lparr> description = Some [], category = Some ''SaaS'', targetMarket = Some ''SMB'',
              keyFeatures = None, stage = None \<rparr>" 20] i e
  show ?thesis
    by (simp add: getIdea_def)
qed

subsection \<open>Intent detection\<close>

lemma includesStr_sublist: "includesStr s k \<longleftrightarrow> sublist k s"
  by (induction s) (auto simp: sublist_Cons_right)

text \<open>
  Claim C9. For every message and every lower-casing function,
  \<^verbatim>\<open>detectUserIntent\<close> returns the intent of the first keyword group, in the order
  competitor, market, customer, report, one of whose keywords occurs in the
  lower-cased message as a contiguous substring, and \<open>general\<close> exactly when no
  group has such a keyword. The result is one of the five intents by its type.
\<close>

theorem detectUserIntent_first_match:
  "detectUserIntent toLowerCase message = detectByGroups toLowerCase message
   \<and> (detectUserIntent toLowerCase message = General \<longleftrightarrow>
        \<not> list_ex (groupMatches (toLowerCase message)) keywordGroups)
   \<and> map fst keywordGroups = [Ask_competitor, Ask_market, Ask_customer, Ask_report]
   \<and> (includesStr s k \<longleftrightarrow> sublist k s)"
  by (simp add: detectUserIntent_def detectByGroups_def keywordGroups_def groupMatches_def
      Let_def includesStr_sublist)

theorem detectUserIntent_first_match_witness:
  "detectByGroups asciiLower ''Market size of our Competitors'' = Ask_competitor
   \<and> detectByGroups asciiLower ''What is the TAM?'' = Ask_market
   \<and> detectByGroups asciiLower ''Who is the target audience'' = Ask_customer
   \<and> detectByGroups asciiLower ''Give me the FULL REPORT'' = Ask_report
   \<and> detectByGroups asciiLower ''hello'' = General
   \<and> \<not> list_ex (groupMatches (asciiLower ''hello'')) keywordGroups"
proof -
  have "detectUserIntent asciiLower ''Market size of our Competitors'' = Ask_competitor"
    by code_simp
  with detectUserIntent_first_match [of asciiLower "''Market size of our Competitors''", THEN conjunct1]
  have 1: "detectByGroups asciiLower ''Market size of our Competitors'' = Ask_competitor"
    by simp
  have "detectUserIntent asciiLower ''What is the TAM?'' = Ask_market"
    by code_simp
  with detectUserIntent_first_match [of asciiLower "''What is the TAM?''", THEN conjunct1]
  have 2: "detectByGroups asciiLower ''What is the TAM?'' = Ask_market"
    by simp
  have "detectUserIntent asciiLower ''Who is the target audience'' = Ask_customer"
    by code_simp
  with detectUserIntent_first_match [of asciiLower "''Who is the target audience''", THEN conjunct1]
  have 3: "detectByGroups asciiLower ''Who is the target audience'' = Ask_customer"
    by simp
  have "detectUserIntent asciiLower ''Give me the FULL REPORT'' = Ask_report"
    by code_simp
  with detectUserIntent_first_match [of asciiLower "''Give me the FULL REPORT''", THEN conjunct1]
  have 4: "detectByGroups asciiLower ''Give me the FULL REPORT'' = Ask_report"
    by simp
  have g: "detectUserIntent asciiLower ''hello'' = General"
    by code_simp
  with detectUserIntent_first_match [of asciiLower "''hello''", THEN conjunct1]
  have 5: "detectByGroups asciiLower ''hello'' = General"
    by simp
  from g detectUserIntent_first_match [of asciiLower "''hello''", THEN conjunct2, THEN conjunct1]
  have 6: "\<not> list_ex (groupMatches (asciiLower ''hello'')) keywordGroups"
    by blast
  from 1 2 3 4 5 6 show ?thesis
    by blast
qed

subsection \<open>What every reachable state satisfies\<close>

text \<open>
  The side conditions used above hold of every state the operations produce:
  \<^verbatim>\<open>addTodo\<close> and \<^verbatim>\<open>updateTodos\<close> always store a \<open>createdAt\<close>, and the two
  string lists never receive a string they already hold.
\<close>

lemma updateTodos_created:
  "list_all (\<lambda>t. createdAt t \<noteq> None) (todos (workingMemory (updateTodos now newTodos c)))"
  by (simp add: updateTodos_def touch_def Let_def list_all_iff orElse_def split: option.splits)

lemma updateTodoStatus_created:
  assumes "list_all (\<lambda>t. createdAt t \<noteq> None) (todos (workingMemory c))"
  shows "list_all (\<lambda>t. createdAt t \<noteq> None) (todos (workingMemory (updateTodoStatus now index st c)))"
proof (cases "0 \<le> index \<and> index < int (length (todos (workingMemory c)))")
  case True
  then have i: "nat index < length (todos (workingMemory c))"
    by linarith
  with assms have "createdAt (todos (workingMemory c) ! nat index) \<noteq> None"
    by (simp add: list_all_length)
  with assms True i show ?thesis
    by (auto simp: updateTodoStatus_def touch_def Let_def list_all_length nth_list_update)
next
  case False
  then have "updateTodoStatus now index st c = c"
    by (auto simp: updateTodoStatus_def Let_def)
  with assms show ?thesis by simp
qed

lemma updateTodos_frame:
  "userConcerns (workingMemory (updateTodos now newTodos c)) = userConcerns (workingMemory c)"
  "recommendations (workingMemory (updateTodos now newTodos c)) = recommendations (workingMemory c)"
  "analyses (workingMemory (updateTodos now newTodos c)) = analyses (workingMemory c)"
  by (simp_all add: updateTodos_def touch_def Let_def)

lemma updateTodoStatus_frame:
  "userConcerns (workingMemory (updateTodoStatus now index st c)) = userConcerns (workingMemory c)"
  "recommendations (workingMemory (updateTodoStatus now index st c))
     = recommendations (workingMemory c)"
  "analyses (workingMemory (updateTodoStatus now index st c)) = analyses (workingMemory c)"
  by (simp_all add: updateTodoStatus_def touch_def Let_def)

lemma reachable_wellFormed: "reachable c \<Longrightarrow> wellFormed c"
proof (induction rule: reachable.induct)
  case (constructed now sid)
  show ?case by (simp add: wellFormed_def newMemoryManager_def)
next
  case (updateIdea c now partial)
  then show ?case by (simp add: wellFormed_def updateIdea_def touch_def)
next
  case (cacheAnalysis c now k d)
  then show ?case by (simp add: wellFormed_def cacheAnalysis_def touch_def distinct_update)
next
  case (setFocus c now f)
  then show ?case by (simp add: wellFormed_def setFocus_def touch_def)
next
  case (addRecommendation c now x)
  then show ?case by (simp add: wellFormed_def addRecommendation_def touch_def)
next
  case (clearRecommendations c now)
  then show ?case by (simp add: wellFormed_def clearRecommendations_def touch_def)
next
  case (addUserConcern c now x)
  then show ?case by (simp add: wellFormed_def addUserConcern_def touch_def)
next
  case (addTodo c now cont active prio)
  then show ?case by (simp add: wellFormed_def addTodo_def touch_def)
next
  case (updateTodos c now newTodos)
  with updateTodos_created [of now newTodos c] show ?case
    by (simp add: wellFormed_def updateTodos_frame)
next
  case (updateTodoStatus c now index st)
  with updateTodoStatus_created [of c now index st] show ?case
    by (simp add: wellFormed_def updateTodoStatus_frame)
qed

text \<open>
  The operations keep every \<open>createdAt\<close> a time as long as \<^verbatim>\<open>updateTodos\<close> is
  handed no Invalid Date: on the states built that way \<^verbatim>\<open>sortTodos()\<close> orders as
  the three tiers say.
\<close>

lemma addTodo_stamped:
  assumes "list_all stamped (todos (workingMemory c))"
  shows "list_all stamped (todos (workingMemory (addTodo now cont active prio c)))"
  using assms by (simp add: addTodo_def touch_def stamped_def)

lemma updateTodoStatus_stamped:
  assumes "list_all stamped (todos (workingMemory c))"
  shows "list_all stamped (todos (workingMemory (updateTodoStatus now index st c)))"
proof (cases "0 \<le> index \<and> index < int (length (todos (workingMemory c)))")
  case True
  then have i: "nat index < length (todos (workingMemory c))"
    by linarith
  with assms have "stamped (todos (workingMemory c) ! nat index)"
    by (simp add: list_all_length)
  with assms True i show ?thesis
    by (auto simp: updateTodoStatus_def touch_def Let_def list_all_length nth_list_update
        stamped_def)
next
  case False
  then have "updateTodoStatus now index st c = c"
    by (auto simp: updateTodoStatus_def Let_def)
  with assms show ?thesis by simp
qed

lemma find_stamped:
  assumes "list_all stamped ts" and "find P ts = Some e"
  shows "stamped e"
  using assms by (induction ts) (auto split: if_splits)

lemma updateTodos_stamped:
  assumes "list_all stamped (todos (workingMemory c))"
    and "list_all (\<lambda>t. createdAt t \<noteq> Some InvalidDate) newTodos"
  shows "list_all stamped (todos (workingMemory (updateTodos now newTodos c)))"
proof -
  have "stamped (n\<lparr>createdAt :=
           orElse (case find (\<lambda>t. content t = content n) (todos (workingMemory c)) of
                     None \<Rightarrow> None | Some e \<Rightarrow> createdAt e)
             (orElse (createdAt n) (Some (Date now))),
         completedAt := x\<rparr>)"
    if n: "createdAt n \<noteq> Some InvalidDate" for n x
  proof (cases "find (\<lambda>t. content t = content n) (todos (workingMemory c))")
    case None
    with n show ?thesis
      by (cases "createdAt n") (auto simp: stamped_def orElse_def split: date.splits)
  next
    case (Some e)
    from find_stamped [OF assms(1) Some] obtain ms where "createdAt e = Some (Date ms)"
      by (rule stampedE)
    with Some show ?thesis
      by (simp add: stamped_def orElse_def)
  qed
  with assms(2) show ?thesis
    by (simp add: updateTodos_def touch_def Let_def list_all_iff)
qed

end
